theory Spec2Isabelle
  imports Main "HOL-Library.AList"
begin

section \<open>Python values\<close>

text \<open>
  The values that \<^verbatim>\<open>json.load\<close> produces and \<^verbatim>\<open>json.dump\<close> accepts. A JSON object is
  a Python dict, kept as an association list read with \<^const>\<open>map_of\<close>; numbers are
  Python integers (floating point numbers are left out).
\<close>

datatype json =
    JNull
  | JBool bool
  | JNum int
  | JStr string
  | JArr "json list"
  | JObj "(string \<times> json) list"

text \<open>The exceptions of the source that no handler names explicitly.\<close>

datatype py_error =
    KeyError | TypeError | AttributeError | FileNotFoundError | RecursionError | OtherError

text \<open>
  What a Python \<^verbatim>\<open>set\<close> stores of a value: hashable values up to Python's \<^verbatim>\<open>==\<close>,
  under which \<^verbatim>\<open>True == 1\<close> and \<^verbatim>\<open>False == 0\<close>. A list or a dict is unhashable.
\<close>

datatype key = KNone | KNum int | KStr string

fun hash_key :: "json \<Rightarrow> py_error + key" where
  "hash_key JNull = Inr KNone"
| "hash_key (JBool b) = Inr (KNum (if b then 1 else 0))"
| "hash_key (JNum n) = Inr (KNum n)"
| "hash_key (JStr s) = Inr (KStr s)"
| "hash_key (JArr xs) = Inl TypeError"
| "hash_key (JObj kvs) = Inl TypeError"

text \<open>Truth value of a Python object, as \<^verbatim>\<open>if x\<close> and \<^verbatim>\<open>not x\<close> test it.\<close>

fun truthy :: "json \<Rightarrow> bool" where
  "truthy JNull = False"
| "truthy (JBool b) = b"
| "truthy (JNum n) = (n \<noteq> 0)"
| "truthy (JStr s) = (s \<noteq> [])"
| "truthy (JArr xs) = (xs \<noteq> [])"
| "truthy (JObj kvs) = (kvs \<noteq> [])"

text \<open>\<^verbatim>\<open>x[k]\<close> with a string \<^verbatim>\<open>k\<close>: only a dict that has the key answers.\<close>

fun subscript :: "json \<Rightarrow> string \<Rightarrow> py_error + json" where
  "subscript (JObj kvs) k = (case map_of kvs k of None \<Rightarrow> Inl KeyError | Some v \<Rightarrow> Inr v)"
| "subscript j k = Inl TypeError"

text \<open>\<^verbatim>\<open>x.get(k, d)\<close>: only a dict has the method.\<close>

fun dict_get :: "json \<Rightarrow> string \<Rightarrow> json \<Rightarrow> py_error + json" where
  "dict_get (JObj kvs) k d = Inr (case map_of kvs k of None \<Rightarrow> d | Some v \<Rightarrow> v)"
| "dict_get j k d = Inl AttributeError"

text \<open>
  \<^verbatim>\<open>for item in x\<close>: a list gives its elements, a dict its keys, a string its
  characters; nothing else is iterable.
\<close>

fun py_iter :: "json \<Rightarrow> py_error + json list" where
  "py_iter (JArr xs) = Inr xs"
| "py_iter (JObj kvs) = Inr (map (\<lambda>kv. JStr (fst kv)) kvs)"
| "py_iter (JStr s) = Inr (map (\<lambda>c. JStr [c]) s)"
| "py_iter j = Inl TypeError"

text \<open>\<^verbatim>\<open>len(x)\<close>.\<close>

fun py_len :: "json \<Rightarrow> py_error + nat" where
  "py_len (JArr xs) = Inr (length xs)"
| "py_len (JObj kvs) = Inr (length kvs)"
| "py_len (JStr s) = Inr (length s)"
| "py_len j = Inl TypeError"

text \<open>\<^verbatim>\<open>x + new\<close> where \<^verbatim>\<open>new\<close> is a list: only a list can be extended by a list.\<close>

fun py_add :: "json \<Rightarrow> json list \<Rightarrow> py_error + json" where
  "py_add (JArr xs) new = Inr (JArr (xs @ new))"
| "py_add j new = Inl TypeError"

section \<open>Files and reports\<close>

text \<open>
  A file either holds a JSON document or cannot be read back (it cannot be opened, or
  \<^verbatim>\<open>json.load\<close> rejects its text). The file system is a list of paths with their
  contents, so that a directory can be listed. A directory is a path of its own (it may
  be empty); a path with something below it is a directory as well.
\<close>

datatype fcontent = Document json | Unreadable | Directory

type_synonym files = "(string \<times> fcontent) list"

text \<open>
  The messages of the source, by what they say; the Russian texts are not reproduced.
\<close>

datatype msg =
    No_data_to_save string string
  | Read_failed string
  | No_new_data string string
  | New_records_found nat string string
  | Saved string nat
  | Write_failed string
  | Point_no_data_to_save string
  | Point_no_new_data string
  | Point_new_records_found nat string
  | Attempt nat int string
  | Request_ok
  | Nodes_key_missing
  | Timed_out nat int string
  | Attempts_exhausted
  | Not_found string
  | Request_failed
  | File_missing string
  | Geo_point_extracted key string
  | Geo_points_total nat string
  | Point_no_data string string
  | Php_parse_failed string

datatype level = INFO | WARNING | ERROR

text \<open>
  What the program does to the outside world apart from files: lines sent to the
  logger, lines printed, sleeps and HTTP requests.
\<close>

datatype event =
    Log level msg
  | Print msg
  | Sleep_random
  | Sleep nat
  | Get string

record state =
  files :: files
  out :: "event list"

definition emit :: "event \<Rightarrow> state \<Rightarrow> state" where
  "emit e st = st\<lparr>out := out st @ [e]\<rparr>"

definition path_exists :: "files \<Rightarrow> string \<Rightarrow> bool" where
  "path_exists fs p = (map_of fs p \<noteq> None)"

text \<open>
  \<^verbatim>\<open>with open(filename, "r") as f: json.load(f)\<close> inside \<^verbatim>\<open>try\<close>: \<open>None\<close> is any
  exception of the block.
\<close>

definition read_json :: "files \<Rightarrow> string \<Rightarrow> json option" where
  "read_json fs p = (case map_of fs p of Some (Document j) \<Rightarrow> Some j | _ \<Rightarrow> None)"

text \<open>
  \<^verbatim>\<open>with open(filename, "w") as f: json.dump(data, f)\<close>. Opening in mode \<^verbatim>\<open>"w"\<close>
  truncates the file before anything is written, and the data go to the same path. The
  environment decides how the write ends: it completes, it fails on opening (nothing is
  touched), or it fails after the file was opened, which leaves a truncated text that is
  not a JSON document.
\<close>

datatype write_outcome = W_ok | W_open_error | W_io_error

fun write_json :: "write_outcome \<Rightarrow> string \<Rightarrow> json \<Rightarrow> files \<Rightarrow> files \<times> bool" where
  "write_json W_ok p data fs = (AList.update p (Document data) fs, True)"
| "write_json W_open_error p data fs = (fs, False)"
| "write_json W_io_error p data fs = (AList.update p Unreadable fs, False)"

section \<open>Merging records into a snapshot\<close>

text \<open>
  The set comprehension \<^verbatim>\<open>{ident(item) for item in items}\<close> and the list comprehension
  \<^verbatim>\<open>[item for item in items if ident(item) not in seen]\<close>. The first exception ends
  the comprehension.
\<close>

fun key_set :: "(json \<Rightarrow> py_error + json) \<Rightarrow> json list \<Rightarrow> py_error + key set" where
  "key_set ident [] = Inr {}"
| "key_set ident (item # items) =
     (case ident item of
        Inl e \<Rightarrow> Inl e
      | Inr v \<Rightarrow>
         (case hash_key v of
            Inl e \<Rightarrow> Inl e
          | Inr k \<Rightarrow>
             (case key_set ident items of
                Inl e \<Rightarrow> Inl e
              | Inr ks \<Rightarrow> Inr (insert k ks))))"

fun select_new :: "(json \<Rightarrow> py_error + json) \<Rightarrow> key set \<Rightarrow> json list \<Rightarrow> py_error + json list" where
  "select_new ident seen [] = Inr []"
| "select_new ident seen (item # items) =
     (case ident item of
        Inl e \<Rightarrow> Inl e
      | Inr v \<Rightarrow>
         (case hash_key v of
            Inl e \<Rightarrow> Inl e
          | Inr k \<Rightarrow>
             (case select_new ident seen items of
                Inl e \<Rightarrow> Inl e
              | Inr rest \<Rightarrow> Inr (if k \<in> seen then rest else item # rest))))"

text \<open>\<^verbatim>\<open>item["Nid"]\<close> and \<^verbatim>\<open>item["node"]["field_period"]\<close>.\<close>

definition nid :: "json \<Rightarrow> py_error + json" where
  "nid item = subscript item ''Nid''"

definition period :: "json \<Rightarrow> py_error + json" where
  "period item =
     (case subscript item ''node'' of
        Inl e \<Rightarrow> Inl e
      | Inr node \<Rightarrow> subscript node ''field_period'')"

definition data_filename :: "string \<Rightarrow> string \<Rightarrow> string \<Rightarrow> string" where
  "data_filename category api_name data_type =
     category @ ''/'' @ api_name @ ''_'' @ data_type @ ''.json''"

text \<open>\<^verbatim>\<open>os.path.join(a, b)\<close> on a POSIX system.\<close>

definition path_join :: "string \<Rightarrow> string \<Rightarrow> string" where
  "path_join a b =
     (if b \<noteq> [] \<and> hd b = CHR ''/'' then b
      else if a = [] \<or> last a = CHR ''/'' then a @ b
      else a @ ''/'' @ b)"

definition point_filename :: "string \<Rightarrow> string \<Rightarrow> string" where
  "point_filename category geo_point =
     path_join (path_join category ''point_data'') (''point_'' @ geo_point @ ''.json'')"

text \<open>
  The parts that \<^verbatim>\<open>save_data\<close> and \<^verbatim>\<open>save_point_data\<close> repeat word for word.

  \<open>load_existing\<close>: \<^verbatim>\<open>existing_data = []\<close>, replaced by the file's document when the
  file exists and the run is not the initial one; \<open>None\<close> is the \<^verbatim>\<open>except\<close> branch.

  \<open>find_new\<close>: the two comprehensions, the existing keys first; in \<^verbatim>\<open>save_data\<close>
  the fetched records are the list \<^verbatim>\<open>self.parsed_data\<close>.

  \<open>write_snapshot\<close>: the last \<^verbatim>\<open>try\<close> block. \<^verbatim>\<open>len(updated_data)\<close> is evaluated
  inside it, after the file was closed, so its exception is reported as a failed save.
\<close>

definition load_existing :: "files \<Rightarrow> string \<Rightarrow> bool \<Rightarrow> json option" where
  "load_existing fs filename initial_parse =
     (if path_exists fs filename \<and> \<not> initial_parse then read_json fs filename else Some (JArr []))"

definition find_new :: "(json \<Rightarrow> py_error + json) \<Rightarrow> json \<Rightarrow> json \<Rightarrow> py_error + json list" where
  "find_new ident existing_data fetched =
     (case py_iter existing_data of
        Inl e \<Rightarrow> Inl e
      | Inr existing_items \<Rightarrow>
         (case key_set ident existing_items of
            Inl e \<Rightarrow> Inl e
          | Inr seen \<Rightarrow>
             (case py_iter fetched of
                Inl e \<Rightarrow> Inl e
              | Inr items \<Rightarrow> select_new ident seen items)))"

definition report :: "bool \<Rightarrow> level \<Rightarrow> msg \<Rightarrow> state \<Rightarrow> state" where
  "report printing lvl m st =
     (if printing then emit (Print m) (emit (Log lvl m) st) else emit (Log lvl m) st)"

definition write_snapshot :: "bool \<Rightarrow> write_outcome \<Rightarrow> string \<Rightarrow> json \<Rightarrow> state \<Rightarrow> state" where
  "write_snapshot printing w filename updated_data st =
     (let (fs, written) = write_json w filename updated_data (files st);
          st' = st\<lparr>files := fs\<rparr>
      in case (if written then py_len updated_data else Inl OtherError) of
           Inr n \<Rightarrow> report printing INFO (Saved filename n) st'
         | Inl e \<Rightarrow> report printing ERROR (Write_failed filename) st')"

text \<open>
  \<^verbatim>\<open>BaseParser.save_data\<close>. The arguments \<open>category\<close> and \<open>parsed_data\<close> are the fields
  of \<^verbatim>\<open>self\<close> that the method reads, \<open>w\<close> is how the environment ends the write, should
  one be made. The result is the state afterwards and the exception that leaves the
  method, if any: \<^verbatim>\<open>item["Nid"]\<close> and \<^verbatim>\<open>existing_data + new_records\<close> stand outside every
  \<^verbatim>\<open>try\<close>.
\<close>

definition save_data ::
  "string \<Rightarrow> json list \<Rightarrow> string \<Rightarrow> string \<Rightarrow> bool \<Rightarrow> write_outcome \<Rightarrow> state
     \<Rightarrow> state \<times> py_error option" where
  "save_data category parsed_data api_name data_type initial_parse w st =
    (if parsed_data = [] then (report True INFO (No_data_to_save api_name data_type) st, None)
     else
       let filename = data_filename category api_name data_type
       in case load_existing (files st) filename initial_parse of
            None \<Rightarrow> (report True ERROR (Read_failed filename) st, None)
          | Some existing_data \<Rightarrow>
             (if initial_parse then (write_snapshot True w filename (JArr parsed_data) st, None)
              else
                (case find_new nid existing_data (JArr parsed_data) of
                   Inl e \<Rightarrow> (st, Some e)
                 | Inr new_records \<Rightarrow>
                    (if new_records = [] then (report True INFO (No_new_data api_name data_type) st, None)
                     else
                       (case py_add existing_data new_records of
                          Inl e \<Rightarrow> (st, Some e)
                        | Inr updated_data \<Rightarrow>
                           (write_snapshot True w filename updated_data
                              (report False INFO
                                 (New_records_found (length new_records) api_name data_type) st),
                            None))))))"

text \<open>
  \<^verbatim>\<open>not data or not data.get("nodes")\<close>: the value under \<^verbatim>\<open>"nodes"\<close> when \<^verbatim>\<open>data\<close>
  and that value are both true, \<open>None\<close> when the test sends the caller away.
\<close>

definition nodes_of :: "json \<Rightarrow> py_error + json option" where
  "nodes_of data =
     (if \<not> truthy data then Inr None
      else
        (case dict_get data ''nodes'' JNull of
           Inl e \<Rightarrow> Inl e
         | Inr v \<Rightarrow> Inr (if truthy v then Some v else None)))"

text \<open>
  \<^verbatim>\<open>BaseParser.save_point_data\<close>: the same merge on the file of one geo point, with the
  records under \<^verbatim>\<open>data["nodes"]\<close> and the period as the identity; nothing is printed.
  The directory \<^verbatim>\<open>point_data\<close> that the method creates is not modelled.
\<close>

definition save_point_data ::
  "string \<Rightarrow> string \<Rightarrow> json \<Rightarrow> bool \<Rightarrow> write_outcome \<Rightarrow> state \<Rightarrow> state \<times> py_error option" where
  "save_point_data category geo_point data initial_parse w st =
    (case nodes_of data of
       Inl e \<Rightarrow> (st, Some e)
     | Inr None \<Rightarrow> (report False INFO (Point_no_data_to_save geo_point) st, None)
     | Inr (Some nodes) \<Rightarrow>
        (let filename = point_filename category geo_point
         in case load_existing (files st) filename initial_parse of
              None \<Rightarrow> (report False ERROR (Read_failed filename) st, None)
            | Some existing_data \<Rightarrow>
               (if initial_parse then (write_snapshot False w filename nodes st, None)
                else
                  (case find_new period existing_data nodes of
                     Inl e \<Rightarrow> (st, Some e)
                   | Inr new_nodes \<Rightarrow>
                      (if new_nodes = [] then (report False INFO (Point_no_new_data geo_point) st, None)
                       else
                         (case py_add existing_data new_nodes of
                            Inl e \<Rightarrow> (st, Some e)
                          | Inr updated_data \<Rightarrow>
                             (write_snapshot False w filename updated_data
                                (report False INFO
                                   (Point_new_records_found (length new_nodes) geo_point) st),
                              None)))))))"


text \<open>
  The identity of a record as the merge sees it: the hashed value of \<^verbatim>\<open>item["Nid"]\<close>
  or of \<^verbatim>\<open>item["node"]["field_period"]\<close>, \<open>None\<close> for a record on which the lookup
  raises.
\<close>

definition key_of :: "(json \<Rightarrow> py_error + json) \<Rightarrow> json \<Rightarrow> key option" where
  "key_of ident item =
     (case ident item of
        Inl e \<Rightarrow> None
      | Inr v \<Rightarrow> (case hash_key v of Inl e \<Rightarrow> None | Inr k \<Rightarrow> Some k))"

text \<open>
  A file merged again and again, as the hourly cycles do: each call comes with its
  records, its mode and the way the environment ends its write. An exception leaves
  the call and the files stay as they are; the next call starts from there.
\<close>

definition save_data_runs ::
  "string \<Rightarrow> string \<Rightarrow> string \<Rightarrow> (json list \<times> bool \<times> write_outcome) list \<Rightarrow> state \<Rightarrow> state" where
  "save_data_runs category api_name data_type calls st =
     fold (\<lambda>(parsed_data, initial_parse, w) s.
             fst (save_data category parsed_data api_name data_type initial_parse w s)) calls st"

definition save_point_data_runs ::
  "string \<Rightarrow> string \<Rightarrow> (json \<times> bool \<times> write_outcome) list \<Rightarrow> state \<Rightarrow> state" where
  "save_point_data_runs category geo_point calls st =
     fold (\<lambda>(data, initial_parse, w) s.
             fst (save_point_data category geo_point data initial_parse w s)) calls st"

text \<open>The records of a snapshot file, when the file holds a JSON array.\<close>

definition snapshot :: "files \<Rightarrow> string \<Rightarrow> json list option" where
  "snapshot fs p = (case map_of fs p of Some (Document (JArr rs)) \<Rightarrow> Some rs | _ \<Rightarrow> None)"

text \<open>
  No two records of a snapshot file share an identity: the keys of its records are
  pairwise distinct. A file that holds no array has no records.
\<close>

definition unique_keys :: "(json \<Rightarrow> py_error + json) \<Rightarrow> files \<Rightarrow> string \<Rightarrow> bool" where
  "unique_keys ident fs p =
     (case snapshot fs p of None \<Rightarrow> True | Some rs \<Rightarrow> distinct (map (key_of ident) rs))"

section \<open>Fetching\<close>

text \<open>
  What one \<^verbatim>\<open>session.get\<close> block does, as the environment decides it. An exception
  comes from the request itself or from \<^verbatim>\<open>raise_for_status\<close> (\<open>Failed_request\<close>), or from
  reading the body after the status was accepted (\<open>Failed_body\<close>); otherwise the body
  parses to a value. The exceptions are the classes that the handlers tell apart:
  \<^verbatim>\<open>asyncio.TimeoutError\<close>, \<^verbatim>\<open>aiohttp.ClientResponseError\<close> with its status, any other
  \<^verbatim>\<open>aiohttp.ClientError\<close>, and anything else, which no handler catches.
\<close>

datatype failure = Timeout | Response_error nat | Client_error | Other_exception

datatype outcome = Failed_request failure | Failed_body failure | Body json

text \<open>\<^verbatim>\<open>"nodes" in data\<close>: a key of a dict, an element of a list, a part of a string.\<close>

fun substring :: "string \<Rightarrow> string \<Rightarrow> bool" where
  "substring p [] = (p = [])"
| "substring p (c # cs) = (take (length p) (c # cs) = p \<or> substring p cs)"

fun contains_nodes :: "json \<Rightarrow> py_error + bool" where
  "contains_nodes (JObj kvs) = Inr (map_of kvs ''nodes'' \<noteq> None)"
| "contains_nodes (JArr xs) = Inr (JStr ''nodes'' \<in> set xs)"
| "contains_nodes (JStr s) = Inr (substring ''nodes'' s)"
| "contains_nodes j = Inl TypeError"

text \<open>The \<^verbatim>\<open>except\<close> clauses of \<^verbatim>\<open>fetch_data\<close> that end the call.\<close>

definition fatal :: "string \<Rightarrow> failure \<Rightarrow> state \<Rightarrow> state \<times> (py_error + json)" where
  "fatal api_url f st =
     (case f of
        Response_error status \<Rightarrow>
          (emit (Log ERROR (if status = 404 then Not_found api_url else Request_failed)) st,
           Inr (JArr []))
      | Client_error \<Rightarrow> (emit (Log ERROR Request_failed) st, Inr (JArr []))
      | _ \<Rightarrow> (st, Inl OtherError))"

text \<open>
  The \<^verbatim>\<open>while\<close> loop of \<^verbatim>\<open>fetch_data\<close>. Only a timeout goes round the loop, and it
  counts the attempt, so the request made is the one numbered \<open>attempts\<close>. The
  \<^verbatim>\<open>debug\<close> line is below the logger's level and is not logged.
\<close>

function fetch_loop ::
  "(nat \<Rightarrow> outcome) \<Rightarrow> string \<Rightarrow> int \<Rightarrow> int \<Rightarrow> state \<Rightarrow> state \<times> (py_error + json)" where
  "fetch_loop env api_url max_attempts attempts st =
     (if attempts < max_attempts then
        (let st1 = emit (Get api_url) (emit (Log INFO (Attempt (nat (attempts + 1)) max_attempts api_url)) st);
             res = env (nat attempts);
             st2 = (case res of Failed_request f \<Rightarrow> st1 | _ \<Rightarrow> emit (Log INFO Request_ok) st1);
             raised = (case res of Failed_request f \<Rightarrow> Some f | Failed_body f \<Rightarrow> Some f | Body data \<Rightarrow> None)
         in case raised of
              None \<Rightarrow>
                (case res of
                   Body data \<Rightarrow>
                     (case contains_nodes data of
                        Inl e \<Rightarrow> (st2, Inl e)
                      | Inr present \<Rightarrow>
                          (if \<not> present then (emit (Log ERROR Nodes_key_missing) st2, Inr (JArr []))
                           else (st2, Inr data)))
                 | _ \<Rightarrow> (st2, Inl OtherError))
            | Some Timeout \<Rightarrow>
                (let st3 = emit (Log WARNING (Timed_out (nat (attempts + 1)) max_attempts api_url)) st2
                 in if attempts + 1 = max_attempts
                    then (emit (Log ERROR Attempts_exhausted) st3, Inr (JArr []))
                    else fetch_loop env api_url max_attempts (attempts + 1)
                           (emit (Sleep (2 ^ nat (attempts + 1))) st3))
            | Some f \<Rightarrow> fatal api_url f st2)
      else (st, Inr (JArr [])))"
  by pat_completeness auto
termination
  by (relation "measure (\<lambda>(env, api_url, max_attempts, attempts, st). nat (max_attempts - attempts))") auto

declare fetch_loop.simps [simp del]

text \<open>
  \<^verbatim>\<open>BaseParser.fetch_data\<close>: the random sleep, then the loop from \<^verbatim>\<open>attempts = 0\<close> with
  \<^verbatim>\<open>max_attempts = self.retries\<close>. The empty result is the list \<^verbatim>\<open>[]\<close>.
\<close>

definition fetch_data ::
  "int \<Rightarrow> (nat \<Rightarrow> outcome) \<Rightarrow> string \<Rightarrow> string \<Rightarrow> state \<Rightarrow> state \<times> (py_error + json)" where
  "fetch_data retries env api_name api_url st = fetch_loop env api_url retries 0 (emit Sleep_random st)"

text \<open>The requests made and the seconds slept between them, read off the events.\<close>

definition requests :: "event list \<Rightarrow> nat" where
  "requests evs = length (filter (\<lambda>e. case e of Get u \<Rightarrow> True | _ \<Rightarrow> False) evs)"

definition sleeps :: "event list \<Rightarrow> nat list" where
  "sleeps evs = concat (map (\<lambda>e. case e of Sleep n \<Rightarrow> [n] | _ \<Rightarrow> []) evs)"

definition timed_out :: "outcome \<Rightarrow> bool" where
  "timed_out res = (res = Failed_request Timeout \<or> res = Failed_body Timeout)"


section \<open>Geo points\<close>

text \<open>
  \<^verbatim>\<open>os.listdir\<close>: the names directly under a directory, each once, files and
  subdirectories alike; \<^verbatim>\<open>FileNotFoundError\<close> when there is no such directory.
  \<^verbatim>\<open>str.endswith\<close>.
\<close>

definition dir_exists :: "files \<Rightarrow> string \<Rightarrow> bool" where
  "dir_exists fs d =
     (map_of fs d = Some Directory \<or> (\<exists>p\<in>set (map fst fs). take (length d + 1) p = d @ ''/''))"

definition listdir :: "files \<Rightarrow> string \<Rightarrow> py_error + string list" where
  "listdir fs d =
     (if dir_exists fs d then
        Inr (remdups (map (\<lambda>p. takeWhile (\<lambda>c. c \<noteq> CHR ''/'') (drop (length d + 1) p))
                        (filter (\<lambda>p. take (length d + 1) p = d @ ''/'') (map fst fs))))
      else Inl FileNotFoundError)"

definition ends_with :: "string \<Rightarrow> string \<Rightarrow> bool" where
  "ends_with s suffix = (length suffix \<le> length s \<and> drop (length s - length suffix) s = suffix)"

text \<open>
  The value looked up in one record: \<^verbatim>\<open>item.get("field_geo_point", "")\<close> for the
  category \<^verbatim>\<open>water\<close>, \<^verbatim>\<open>item.get("field_geo_point", item.get("Nid", ""))\<close> for the others.
\<close>

definition lookup_geo_point :: "bool \<Rightarrow> json \<Rightarrow> py_error + json" where
  "lookup_geo_point water item =
     (if water then dict_get item ''field_geo_point'' (JStr [])
      else
        (case dict_get item ''Nid'' (JStr []) of
           Inl e \<Rightarrow> Inl e
         | Inr d \<Rightarrow> dict_get item ''field_geo_point'' d))"

text \<open>
  The loop over the records of one file. It stands inside \<^verbatim>\<open>try\<close>: an exception ends
  it, the points added so far stay in the set, and the flag tells the caller to log
  the failure. Only the branch for \<^verbatim>\<open>water\<close> logs each point.
\<close>

fun scan_items :: "bool \<Rightarrow> string \<Rightarrow> json list \<Rightarrow> key set \<Rightarrow> state \<Rightarrow> (key set \<times> state) \<times> bool" where
  "scan_items water filename [] geo_points st = ((geo_points, st), False)"
| "scan_items water filename (item # items) geo_points st =
     (case lookup_geo_point water item of
        Inl e \<Rightarrow> ((geo_points, st), True)
      | Inr geo_point \<Rightarrow>
         (if truthy geo_point \<and> geo_point \<noteq> JStr ''Unknown'' then
            (case hash_key geo_point of
               Inl e \<Rightarrow> ((geo_points, st), True)
             | Inr k \<Rightarrow>
                 scan_items water filename items (insert k geo_points)
                   (if water then emit (Log INFO (Geo_point_extracted k filename)) st else st))
          else scan_items water filename items geo_points st))"

definition scan_file :: "bool \<Rightarrow> string \<Rightarrow> string \<Rightarrow> key set \<times> state \<Rightarrow> key set \<times> state" where
  "scan_file water filepath filename acc =
     (case (case read_json (files (snd acc)) filepath of
              None \<Rightarrow> Inl OtherError
            | Some data \<Rightarrow> py_iter data) of
        Inl e \<Rightarrow> (fst acc, emit (Log ERROR (Read_failed filepath)) (snd acc))
      | Inr items \<Rightarrow>
         (case scan_items water filename items (fst acc) (snd acc) of
            ((geo_points, st), failed) \<Rightarrow>
              (geo_points, if failed then emit (Log ERROR (Read_failed filepath)) st else st)))"

definition target_files :: "string list" where
  "target_files = [''nsmos_substances_substances.json'', ''esawage_surface_substances_substances.json'']"

text \<open>
  The two loops over files: the one of the category \<^verbatim>\<open>water\<close> over its two named
  files, the one of the other categories over the listing of the directory.
\<close>

definition scan_water :: "string \<Rightarrow> string list \<Rightarrow> key set \<times> state \<Rightarrow> key set \<times> state" where
  "scan_water category filenames acc0 =
     fold (\<lambda>filename acc.
             let filepath = path_join category filename
             in if path_exists (files (snd acc)) filepath
                then scan_file True filepath filename acc
                else (fst acc, emit (Log WARNING (File_missing filepath)) (snd acc)))
       filenames acc0"

definition scan_listing :: "string \<Rightarrow> string \<Rightarrow> string list \<Rightarrow> key set \<times> state \<Rightarrow> key set \<times> state" where
  "scan_listing category data_type filenames acc0 =
     fold (\<lambda>filename acc.
             if ends_with filename (''_'' @ data_type @ ''.json'')
             then scan_file False (path_join category filename) filename acc
             else acc)
       filenames acc0"

text \<open>
  \<^verbatim>\<open>BaseParser.extract_geo_points\<close>; \<open>category\<close> is \<^verbatim>\<open>self.category\<close>. The Python set
  is a set of hashed values. \<^verbatim>\<open>os.listdir\<close> stands outside every \<^verbatim>\<open>try\<close>, so its
  exception leaves the method, before anything is logged.
\<close>

definition extract_geo_points :: "string \<Rightarrow> string \<Rightarrow> state \<Rightarrow> state \<times> (py_error + key set)" where
  "extract_geo_points category data_type st =
     (case (if category = ''water'' then Inr (scan_water category target_files ({}, st))
            else
              (case listdir (files st) category of
                 Inl e \<Rightarrow> Inl e
               | Inr filenames \<Rightarrow> Inr (scan_listing category data_type filenames ({}, st)))) of
        Inl e \<Rightarrow> (st, Inl e)
      | Inr acc \<Rightarrow>
          (emit (Log INFO (Geo_points_total (card (fst acc)) category)) (snd acc), Inr (fst acc)))"

text \<open>
  What the scan of one file is meant to find. The records of a file are what the loop
  runs over (none when the file cannot be read or its document cannot be iterated). A
  record gives the hashed value of its geo point when that value is true and is not
  \<^verbatim>\<open>"Unknown"\<close>; the loop raises on a record that has no \<^verbatim>\<open>get\<close> or whose value cannot
  be hashed, and stops there. The points of a file are those of its records before the
  first one on which the loop raises.
\<close>

definition records_of :: "files \<Rightarrow> string \<Rightarrow> json list" where
  "records_of fs filepath =
     (case read_json fs filepath of
        None \<Rightarrow> []
      | Some data \<Rightarrow> (case py_iter data of Inl e \<Rightarrow> [] | Inr items \<Rightarrow> items))"

definition contribution :: "bool \<Rightarrow> json \<Rightarrow> key option" where
  "contribution water item =
     (case lookup_geo_point water item of
        Inl e \<Rightarrow> None
      | Inr v \<Rightarrow>
         (if truthy v \<and> v \<noteq> JStr ''Unknown''
          then (case hash_key v of Inl e \<Rightarrow> None | Inr k \<Rightarrow> Some k)
          else None))"

definition raises :: "bool \<Rightarrow> json \<Rightarrow> bool" where
  "raises water item =
     (case lookup_geo_point water item of
        Inl e \<Rightarrow> True
      | Inr v \<Rightarrow> truthy v \<and> v \<noteq> JStr ''Unknown'' \<and> isl (hash_key v))"

definition points_of :: "bool \<Rightarrow> json list \<Rightarrow> key set" where
  "points_of water items =
     set (List.map_filter (contribution water) (takeWhile (\<lambda>item. \<not> raises water item) items))"

section \<open>Data of one geo point\<close>










section \<open>Properties of the merge\<close>

subsection \<open>The comprehensions\<close>

lemma key_set_Inr_iff:
  "key_set ident items = Inr ks \<longleftrightarrow>
     (\<forall>x\<in>set items. key_of ident x \<noteq> None) \<and> ks = {k. Some k \<in> key_of ident ` set items}"
proof (induction items arbitrary: ks)
  case Nil
  show ?case by auto
next
  case (Cons x xs)
  show ?case
  proof (cases "key_of ident x")
    case None
    then show ?thesis by (auto simp: key_of_def split: sum.splits)
  next
    case (Some k)
    then have a: "ident x = Inr v \<Longrightarrow> hash_key v = Inr k" for v
      by (auto simp: key_of_def split: sum.splits)
    from Some obtain v where v: "ident x = Inr v" "hash_key v = Inr k"
      by (auto simp: key_of_def split: sum.splits)
    show ?thesis
    proof (cases "key_set ident xs")
      case (Inl e)
      with Cons[of "{}"] Cons v Some show ?thesis
        by (auto split: sum.splits)
    next
      case (Inr ks')
      with Cons[of ks'] v Some show ?thesis
        by (auto split: sum.splits)
    qed
  qed
qed

lemma select_new_Inr_iff:
  "select_new ident seen items = Inr new \<longleftrightarrow>
     (\<forall>x\<in>set items. key_of ident x \<noteq> None) \<and> new = filter (\<lambda>x. key_of ident x \<notin> Some ` seen) items"
proof (induction items arbitrary: new)
  case Nil
  show ?case by auto
next
  case (Cons x xs)
  show ?case
  proof (cases "key_of ident x")
    case None
    then show ?thesis by (auto simp: key_of_def split: sum.splits)
  next
    case (Some k)
    then obtain v where v: "ident x = Inr v" "hash_key v = Inr k"
      by (auto simp: key_of_def split: sum.splits)
    show ?thesis
    proof (cases "select_new ident seen xs")
      case (Inl e)
      with Cons v Some show ?thesis
        by (auto split: sum.splits)
    next
      case (Inr rest)
      with Cons[of rest] v Some show ?thesis
        by (auto split: sum.splits)
    qed
  qed
qed


lemma find_new_Inr_iff:
  "find_new ident existing fetched = Inr new \<longleftrightarrow>
     (\<exists>E items. py_iter existing = Inr E \<and> py_iter fetched = Inr items \<and>
        (\<forall>x\<in>set E \<union> set items. key_of ident x \<noteq> None) \<and>
        new = filter (\<lambda>x. key_of ident x \<notin> key_of ident ` set E) items)"
proof -
  have eq: "filter (\<lambda>x. key_of ident x \<notin> Some ` {k. Some k \<in> key_of ident ` set E}) items
          = filter (\<lambda>x. key_of ident x \<notin> key_of ident ` set E) items"
    if "\<forall>x\<in>set items. key_of ident x \<noteq> None" for E items
  proof (intro filter_cong refl)
    fix x assume "x \<in> set items"
    with that obtain y where y: "key_of ident x = Some y" by auto
    have "(Some y \<in> Some ` {k. Some k \<in> key_of ident ` set E}) = (Some y \<in> key_of ident ` set E)"
      by blast
    with y show "(key_of ident x \<notin> Some ` {k. Some k \<in> key_of ident ` set E})
               = (key_of ident x \<notin> key_of ident ` set E)"
      by simp
  qed
  show ?thesis
  proof (cases "py_iter existing")
    case (Inl e)
    then show ?thesis by (simp add: find_new_def)
  next
    case E: (Inr E)
    show ?thesis
    proof (cases "key_set ident E")
      case (Inl e)
      with E show ?thesis
        using key_set_Inr_iff[of ident E] by (auto simp: find_new_def)
    next
      case ks: (Inr ks)
      then have ks': "(\<forall>x\<in>set E. key_of ident x \<noteq> None)" "ks = {k. Some k \<in> key_of ident ` set E}"
        by (simp_all add: key_set_Inr_iff)
      show ?thesis
      proof (cases "py_iter fetched")
        case (Inl e)
        with E ks show ?thesis by (simp add: find_new_def)
      next
        case items: (Inr items)
        show ?thesis
          using E ks items ks' eq[of items E]
          by (auto simp: find_new_def select_new_Inr_iff)
      qed
    qed
  qed
qed

lemma files_emit [simp]: "files (emit e st) = files st"
  by (simp add: emit_def)

lemma out_emit [simp]: "out (emit e st) = out st @ [e]"
  by (simp add: emit_def)

lemma files_report [simp]: "files (report pr lvl m st) = files st"
  by (simp add: report_def)

lemma out_report [simp]:
  "out (report pr lvl m st) = out st @ (if pr then [Log lvl m, Print m] else [Log lvl m])"
  by (simp add: report_def)

lemma files_write_snapshot:
  "files (write_snapshot pr w p d st) =
     (case w of W_ok \<Rightarrow> AList.update p (Document d) (files st)
      | W_open_error \<Rightarrow> files st
      | W_io_error \<Rightarrow> AList.update p Unreadable (files st))"
  by (cases w) (simp_all add: write_snapshot_def Let_def split: sum.splits)

lemma out_write_snapshot:
  "out (write_snapshot pr w p d st) = out st @
     (case (if w = W_ok then py_len d else Inl OtherError) of
        Inr n \<Rightarrow> (if pr then [Log INFO (Saved p n), Print (Saved p n)] else [Log INFO (Saved p n)])
      | Inl e \<Rightarrow> (if pr then [Log ERROR (Write_failed p), Print (Write_failed p)]
                  else [Log ERROR (Write_failed p)]))"
  by (cases w) (simp_all add: write_snapshot_def Let_def split: sum.splits)

lemma load_existing_Document:
  "map_of fs p = Some (Document j) \<Longrightarrow> load_existing fs p False = Some j"
  by (simp add: load_existing_def path_exists_def read_json_def)

lemma load_existing_Unreadable:
  "map_of fs p = Some Unreadable \<Longrightarrow> load_existing fs p False = None"
  by (simp add: load_existing_def path_exists_def read_json_def)


lemma load_existing_initial: "load_existing fs p True = Some (JArr [])"
  by (simp add: load_existing_def)


subsection \<open>What a call does to the files\<close>

lemma py_add_Inr_iff: "py_add existing new = Inr upd \<longleftrightarrow> (\<exists>E. existing = JArr E \<and> upd = JArr (E @ new))"
  by (cases existing) auto

lemma files_write_json_cases:
  "fst (write_json w p j fs) =
     (case w of W_ok \<Rightarrow> AList.update p (Document j) fs
      | W_open_error \<Rightarrow> fs
      | W_io_error \<Rightarrow> AList.update p Unreadable fs)"
  by (cases w) simp_all

lemma files_write_snapshot_eq: "files (write_snapshot pr w p j st) = fst (write_json w p j (files st))"
  by (simp add: files_write_snapshot files_write_json_cases)

lemma save_data_files:
  "files (fst (save_data c pd a d ini w st)) = files st \<or>
   (\<exists>j. files (fst (save_data c pd a d ini w st)) = fst (write_json w (data_filename c a d) j (files st)) \<and>
        pd \<noteq> [] \<and>
        (if ini then j = JArr pd
         else \<exists>E new. load_existing (files st) (data_filename c a d) False = Some (JArr E) \<and>
                find_new nid (JArr E) (JArr pd) = Inr new \<and> new \<noteq> [] \<and> j = JArr (E @ new)))"
  by (auto simp: save_data_def Let_def files_write_snapshot_eq py_add_Inr_iff
      split: option.splits sum.splits)

lemma save_point_data_files:
  "files (fst (save_point_data c g data ini w st)) = files st \<or>
   (\<exists>j nodes. files (fst (save_point_data c g data ini w st)) = fst (write_json w (point_filename c g) j (files st)) \<and>
        nodes_of data = Inr (Some nodes) \<and>
        (if ini then j = nodes
         else \<exists>E new. load_existing (files st) (point_filename c g) False = Some (JArr E) \<and>
                find_new period (JArr E) nodes = Inr new \<and> new \<noteq> [] \<and> j = JArr (E @ new)))"
  by (auto simp: save_point_data_def Let_def files_write_snapshot_eq py_add_Inr_iff
      split: option.splits sum.splits)

lemma snapshot_update_same:
  "snapshot (AList.update p c fs) p = (case c of Document (JArr rs) \<Rightarrow> Some rs | _ \<Rightarrow> None)"
  by (simp add: snapshot_def AList.update_conv' split: fcontent.splits json.splits)

lemma load_existing_snapshot:
  "snapshot fs p = Some rs \<Longrightarrow> load_existing fs p False = Some (JArr rs)"
  by (auto simp: snapshot_def load_existing_def path_exists_def read_json_def
      split: option.splits fcontent.splits json.splits)

lemma load_existing_JArr_cases:
  "load_existing fs p False = Some (JArr E) \<Longrightarrow> snapshot fs p = Some E \<or> (map_of fs p = None \<and> E = [])"
  by (auto simp: snapshot_def load_existing_def path_exists_def read_json_def
      split: option.splits fcontent.splits json.splits if_splits)

subsection \<open>Incremental merge\<close>

text \<open>
  Claim C2. An incremental call of \<^verbatim>\<open>save_data\<close> with records to save, on a snapshot
  file that holds the array \<open>E\<close>, where every record has a hashable \<^verbatim>\<open>"Nid"\<close>: no
  exception leaves the call. When some fetched record has a \<^verbatim>\<open>"Nid"\<close> that \<open>E\<close> lacks and
  the write completes, the file holds \<open>E\<close> followed by exactly those records in their
  order, and the number of new records is logged before the total. When there is no
  such record, the files are as before however a write would have ended, and "no new
  data" is logged and printed instead.
\<close>

theorem save_data_incremental:
  assumes nonempty: "parsed_data \<noteq> []"
    and existing: "map_of (files st) (data_filename category api_name data_type) = Some (Document (JArr E))"
    and keys: "\<forall>r\<in>set E \<union> set parsed_data. key_of nid r \<noteq> None"
  shows "let p = data_filename category api_name data_type;
             new = filter (\<lambda>r. key_of nid r \<notin> key_of nid ` set E) parsed_data;
             (st', err) = save_data category parsed_data api_name data_type False w st
         in err = None \<and>
            (new \<noteq> [] \<longrightarrow> w = W_ok \<longrightarrow>
               map_of (files st') p = Some (Document (JArr (E @ new))) \<and>
               out st' = out st @ [Log INFO (New_records_found (length new) api_name data_type),
                                   Log INFO (Saved p (length E + length new)),
                                   Print (Saved p (length E + length new))]) \<and>
            (new = [] \<longrightarrow>
               files st' = files st \<and>
               out st' = out st @ [Log INFO (No_new_data api_name data_type),
                                   Print (No_new_data api_name data_type)])"
proof -
  define new where "new = filter (\<lambda>r. key_of nid r \<notin> key_of nid ` set E) parsed_data"
  have fn: "find_new nid (JArr E) (JArr parsed_data) = Inr new"
    using keys by (simp add: find_new_Inr_iff new_def)
  show ?thesis
    using nonempty fn load_existing_Document[OF existing]
    by (simp add: save_data_def Let_def new_def[symmetric] files_write_snapshot out_write_snapshot
        AList.update_conv')
qed

theorem save_data_incremental_witness:
  "[JObj [(''Nid'', JNum 1)], JObj [(''Nid'', JNum 2)]] \<noteq> []
   \<and> map_of [(''air/ala_place_data.json'', Document (JArr [JObj [(''Nid'', JNum 1)]]))]
        (data_filename ''air'' ''ala_place'' ''data'')
      = Some (Document (JArr [JObj [(''Nid'', JNum 1)]]))
   \<and> key_of nid (JObj [(''Nid'', JNum 1)]) = Some (KNum 1)
   \<and> key_of nid (JObj [(''Nid'', JNum 2)]) = Some (KNum 2)
   \<and> (let (st', err) =
          save_data ''air'' [JObj [(''Nid'', JNum 1)], JObj [(''Nid'', JNum 2)]] ''ala_place'' ''data''
            False W_ok
            \<lparr>files = [(''air/ala_place_data.json'', Document (JArr [JObj [(''Nid'', JNum 1)]]))],
             out = []\<rparr>
        in err = None
           \<and> map_of (files st') ''air/ala_place_data.json''
               = Some (Document (JArr [JObj [(''Nid'', JNum 1)], JObj [(''Nid'', JNum 2)]]))
           \<and> out st' = [Log INFO (New_records_found 1 ''ala_place'' ''data''),
                        Log INFO (Saved ''air/ala_place_data.json'' 2),
                        Print (Saved ''air/ala_place_data.json'' 2)])"
proof -
  have h1: "[JObj [(''Nid'', JNum 1)], JObj [(''Nid'', JNum 2)]] \<noteq> []"
    by simp
  have h2: "map_of (files \<lparr>files = [(''air/ala_place_data.json'', Document (JArr [JObj [(''Nid'', JNum 1)]]))],
                           out = []\<rparr>)
              (data_filename ''air'' ''ala_place'' ''data'')
            = Some (Document (JArr [JObj [(''Nid'', JNum 1)]]))"
    by (simp add: data_filename_def)
  have h3: "\<forall>r\<in>set [JObj [(''Nid'', JNum 1)]] \<union> set [JObj [(''Nid'', JNum 1)], JObj [(''Nid'', JNum 2)]].
              key_of nid r \<noteq> None"
    by (simp add: key_of_def nid_def)
  show ?thesis
    using h1 h2 h3 save_data_incremental [OF h1 h2 h3, of W_ok]
    by (simp add: key_of_def nid_def data_filename_def Let_def split: prod.splits)
qed

subsection \<open>Initial merge\<close>

text \<open>
  Claim C4, as the code has it. In initial mode a call of \<^verbatim>\<open>save_data\<close> with records to
  save whose write completes leaves exactly those records in the file, whatever the file
  held before, and so does \<^verbatim>\<open>save_point_data\<close> with the value under \<^verbatim>\<open>"nodes"\<close>. With no
  records (an empty \<^verbatim>\<open>parsed_data\<close>, or data without nodes) the guard at the head of the
  method returns first: nothing is written, the state changes only by the line "no data
  to save", and the file keeps what it held.
\<close>

theorem initial_merge_replaces:
  "(parsed_data \<noteq> [] \<longrightarrow>
      map_of (files (fst (save_data category parsed_data api_name data_type True W_ok st)))
        (data_filename category api_name data_type) = Some (Document (JArr parsed_data)))
   \<and> save_data category [] api_name data_type True w st
       = (st\<lparr>out := out st @ [Log INFO (No_data_to_save api_name data_type),
                                Print (No_data_to_save api_name data_type)]\<rparr>, None)
   \<and> (nodes_of data = Inr (Some nodes) \<longrightarrow>
      map_of (files (fst (save_point_data category geo_point data True W_ok st)))
        (point_filename category geo_point) = Some (Document nodes))
   \<and> (nodes_of data = Inr None \<longrightarrow>
      save_point_data category geo_point data True w st
       = (st\<lparr>out := out st @ [Log INFO (Point_no_data_to_save geo_point)]\<rparr>, None))"
  by (simp add: save_data_def save_point_data_def load_existing_initial files_write_snapshot
      AList.update_conv' report_def emit_def)

theorem initial_merge_replaces_witness:
  "[JObj [(''Nid'', JNum 1)], JObj [(''Nid'', JNum 2)]] \<noteq> []
   \<and> map_of
       (files (fst (save_data ''air'' [JObj [(''Nid'', JNum 1)], JObj [(''Nid'', JNum 2)]] ''ala_place'' ''data''
          True W_ok
          \<lparr>files = [(''air/ala_place_data.json'', Document (JArr [JObj [(''Nid'', JNum 9)]]))], out = []\<rparr>)))
       ''air/ala_place_data.json''
     = Some (Document (JArr [JObj [(''Nid'', JNum 1)], JObj [(''Nid'', JNum 2)]]))
   \<and> nodes_of (JObj [(''nodes'', JArr [JObj [(''node'', JObj [(''field_period'', JStr ''2024'')])]])])
       = Inr (Some (JArr [JObj [(''node'', JObj [(''field_period'', JStr ''2024'')])]]))
   \<and> map_of
       (files (fst (save_point_data ''air'' ''12''
          (JObj [(''nodes'', JArr [JObj [(''node'', JObj [(''field_period'', JStr ''2024'')])]])])
          True W_ok
          \<lparr>files = [(''air/ala_place_data.json'', Document (JArr [JObj [(''Nid'', JNum 9)]]))], out = []\<rparr>)))
       ''air/point_data/point_12.json''
     = Some (Document (JArr [JObj [(''node'', JObj [(''field_period'', JStr ''2024'')])]]))"
  using initial_merge_replaces
    [where st = "\<lparr>files = [(''air/ala_place_data.json'', Document (JArr [JObj [(''Nid'', JNum 9)]]))], out = []\<rparr>"
       and category = "''air''" and api_name = "''ala_place''" and data_type = "''data''"
       and geo_point = "''12''"
       and parsed_data = "[JObj [(''Nid'', JNum 1)], JObj [(''Nid'', JNum 2)]]"
       and data = "JObj [(''nodes'', JArr [JObj [(''node'', JObj [(''field_period'', JStr ''2024'')])]])]"
       and nodes = "JArr [JObj [(''node'', JObj [(''field_period'', JStr ''2024'')])]]"]
  by (simp add: data_filename_def point_filename_def path_join_def nodes_of_def)

text \<open>
  The claim as stated fails for the empty list: the snapshot \<^verbatim>\<open>[{Nid: 1}]\<close> is still in
  the file after an initial merge of no records.
\<close>

theorem initial_merge_empty_counterexample:
  "map_of
     (files (fst (save_data ''air'' [] ''ala_place'' ''data'' True W_ok
        \<lparr>files = [(''air/ala_place_data.json'', Document (JArr [JObj [(''Nid'', JNum 1)]]))], out = []\<rparr>)))
     ''air/ala_place_data.json''
   = Some (Document (JArr [JObj [(''Nid'', JNum 1)]]))
   \<and> map_of
     (files (fst (save_data ''air'' [] ''ala_place'' ''data'' True W_ok
        \<lparr>files = [(''air/ala_place_data.json'', Document (JArr [JObj [(''Nid'', JNum 1)]]))], out = []\<rparr>)))
     ''air/ala_place_data.json''
   \<noteq> Some (Document (JArr []))"
  by (simp add: save_data_def report_def emit_def)

subsection \<open>Unreadable snapshot\<close>

text \<open>
  Claim C6. When the snapshot file exists and cannot be read back, an incremental call
  leaves every file as it was, however a write would have ended. When the call has
  records to merge, so that it reaches the read, it logs the read failure (and
  \<^verbatim>\<open>save_data\<close> prints it), does nothing else and returns without an exception.
\<close>

theorem unreadable_snapshot_aborts_merge:
  "(map_of (files st) (data_filename category api_name data_type) = Some Unreadable \<longrightarrow>
      files (fst (save_data category parsed_data api_name data_type False w st)) = files st \<and>
      (parsed_data \<noteq> [] \<longrightarrow>
         save_data category parsed_data api_name data_type False w st
           = (st\<lparr>out := out st @ [Log ERROR (Read_failed (data_filename category api_name data_type)),
                                    Print (Read_failed (data_filename category api_name data_type))]\<rparr>, None)))
   \<and> (map_of (files st) (point_filename category geo_point) = Some Unreadable \<longrightarrow>
      files (fst (save_point_data category geo_point data False w st)) = files st \<and>
      (nodes_of data = Inr (Some nodes) \<longrightarrow>
         save_point_data category geo_point data False w st
           = (st\<lparr>out := out st @ [Log ERROR (Read_failed (point_filename category geo_point))]\<rparr>, None)))"
  by (auto simp: save_data_def save_point_data_def load_existing_Unreadable report_def emit_def Let_def
      split: sum.splits option.splits)

theorem unreadable_snapshot_aborts_merge_witness:
  "map_of [(''air/ala_place_data.json'', Unreadable), (''air/point_data/point_12.json'', Unreadable)]
       (data_filename ''air'' ''ala_place'' ''data'') = Some Unreadable
   \<and> save_data ''air'' [JObj [(''Nid'', JNum 1)]] ''ala_place'' ''data'' False W_ok
        \<lparr>files = [(''air/ala_place_data.json'', Unreadable), (''air/point_data/point_12.json'', Unreadable)],
         out = []\<rparr>
      = (\<lparr>files = [(''air/ala_place_data.json'', Unreadable), (''air/point_data/point_12.json'', Unreadable)],
          out = [Log ERROR (Read_failed ''air/ala_place_data.json''),
                 Print (Read_failed ''air/ala_place_data.json'')]\<rparr>, None)
   \<and> map_of [(''air/ala_place_data.json'', Unreadable), (''air/point_data/point_12.json'', Unreadable)]
       (point_filename ''air'' ''12'') = Some Unreadable
   \<and> save_point_data ''air'' ''12''
        (JObj [(''nodes'', JArr [JObj [(''node'', JObj [(''field_period'', JStr ''2024'')])]])])
        False W_ok
        \<lparr>files = [(''air/ala_place_data.json'', Unreadable), (''air/point_data/point_12.json'', Unreadable)],
         out = []\<rparr>
      = (\<lparr>files = [(''air/ala_place_data.json'', Unreadable), (''air/point_data/point_12.json'', Unreadable)],
          out = [Log ERROR (Read_failed ''air/point_data/point_12.json'')]\<rparr>, None)"
  using unreadable_snapshot_aborts_merge
    [where st = "\<lparr>files = [(''air/ala_place_data.json'', Unreadable), (''air/point_data/point_12.json'', Unreadable)],
                  out = []\<rparr>"
       and category = "''air''" and api_name = "''ala_place''" and data_type = "''data''"
       and geo_point = "''12''" and w = W_ok
       and parsed_data = "[JObj [(''Nid'', JNum 1)]]"
       and data = "JObj [(''nodes'', JArr [JObj [(''node'', JObj [(''field_period'', JStr ''2024'')])]])]"
       and nodes = "JArr [JObj [(''node'', JObj [(''field_period'', JStr ''2024'')])]]"]
  by (simp add: data_filename_def point_filename_def path_join_def nodes_of_def)

subsection \<open>Failed writes\<close>

lemma save_data_incremental_failed_write:
  assumes "parsed_data \<noteq> []"
    and "load_existing (files st) (data_filename category api_name data_type) False = Some (JArr E)"
    and "\<forall>r\<in>set E \<union> set parsed_data. key_of nid r \<noteq> None"
    and "new = filter (\<lambda>r. key_of nid r \<notin> key_of nid ` set E) parsed_data" and "new \<noteq> []"
    and "w \<noteq> W_ok"
  shows "save_data category parsed_data api_name data_type False w st
     = (st\<lparr>files := (if w = W_io_error
                       then AList.update (data_filename category api_name data_type) Unreadable (files st)
                       else files st),
           out := out st @ [Log INFO (New_records_found (length new) api_name data_type),
                            Log ERROR (Write_failed (data_filename category api_name data_type)),
                            Print (Write_failed (data_filename category api_name data_type))]\<rparr>, None)"
proof -
  have fn: "find_new nid (JArr E) (JArr parsed_data) = Inr new"
    using assms(3,4) by (simp add: find_new_Inr_iff)
  show ?thesis
    using assms(1,2,5,6) fn
    by (cases w) (simp_all add: save_data_def Let_def write_snapshot_def report_def emit_def)
qed

lemma save_point_data_incremental_failed_write:
  assumes "nodes_of data = Inr (Some (JArr items))"
    and "load_existing (files st) (point_filename category geo_point) False = Some (JArr E)"
    and "\<forall>r\<in>set E \<union> set items. key_of period r \<noteq> None"
    and "new = filter (\<lambda>r. key_of period r \<notin> key_of period ` set E) items" and "new \<noteq> []"
    and "w \<noteq> W_ok"
  shows "save_point_data category geo_point data False w st
     = (st\<lparr>files := (if w = W_io_error
                       then AList.update (point_filename category geo_point) Unreadable (files st)
                       else files st),
           out := out st @ [Log INFO (Point_new_records_found (length new) geo_point),
                            Log ERROR (Write_failed (point_filename category geo_point))]\<rparr>, None)"
proof -
  have fn: "find_new period (JArr E) (JArr items) = Inr new"
    using assms(3,4) by (simp add: find_new_Inr_iff)
  show ?thesis
    using assms(1,2,5,6) fn
    by (cases w) (simp_all add: save_point_data_def Let_def write_snapshot_def report_def emit_def)
qed

lemma save_data_initial_failed_write:
  assumes "parsed_data \<noteq> []" and "w \<noteq> W_ok"
  shows "save_data category parsed_data api_name data_type True w st
     = (st\<lparr>files := (if w = W_io_error
                       then AList.update (data_filename category api_name data_type) Unreadable (files st)
                       else files st),
           out := out st @ [Log ERROR (Write_failed (data_filename category api_name data_type)),
                            Print (Write_failed (data_filename category api_name data_type))]\<rparr>, None)"
  using assms
  by (cases w) (simp_all add: save_data_def load_existing_initial write_snapshot_def report_def emit_def Let_def)

lemma save_point_data_initial_failed_write:
  assumes "nodes_of data = Inr (Some nodes)" and "w \<noteq> W_ok"
  shows "save_point_data category geo_point data True w st
     = (st\<lparr>files := (if w = W_io_error
                       then AList.update (point_filename category geo_point) Unreadable (files st)
                       else files st),
           out := out st @ [Log ERROR (Write_failed (point_filename category geo_point))]\<rparr>, None)"
  using assms
  by (cases w) (simp_all add: save_point_data_def load_existing_initial write_snapshot_def report_def emit_def Let_def)

text \<open>
  Claim C3, as the code has it. The snapshot is rewritten in place, through
  \<^verbatim>\<open>open(filename, "w")\<close>. A write that fails on opening the file leaves all files as
  they were, in both methods and both modes, whatever the input. A write that fails
  after the file was opened leaves the snapshot file unreadable. In initial mode with
  records to save, and in incremental mode with records that the existing array lacks
  (every record with its identity), the whole outcome is fixed: after a failure on
  opening the state differs only by the log, after a failure behind the opening the
  snapshot file is unreadable as well; the failure is logged (and printed by
  \<^verbatim>\<open>save_data\<close>) after the count of new records, and no exception leaves the method.
  For any other input an incremental call with a failing write leaves the files
  untouched or the snapshot file unreadable.
\<close>

theorem write_failure_outcomes:
  "files (fst (save_data category parsed_data api_name data_type initial_parse W_open_error st)) = files st
   \<and> files (fst (save_point_data category geo_point data initial_parse W_open_error st)) = files st
   \<and> (parsed_data \<noteq> [] \<longrightarrow>
        save_data category parsed_data api_name data_type True W_io_error st
          = (st\<lparr>files := AList.update (data_filename category api_name data_type) Unreadable (files st),
                 out := out st @ [Log ERROR (Write_failed (data_filename category api_name data_type)),
                                  Print (Write_failed (data_filename category api_name data_type))]\<rparr>, None))
   \<and> (nodes_of data = Inr (Some nodes) \<longrightarrow>
        save_point_data category geo_point data True W_io_error st
          = (st\<lparr>files := AList.update (point_filename category geo_point) Unreadable (files st),
                 out := out st @ [Log ERROR (Write_failed (point_filename category geo_point))]\<rparr>, None))
   \<and> (files (fst (save_data category parsed_data api_name data_type False W_io_error st)) = files st
        \<or> files (fst (save_data category parsed_data api_name data_type False W_io_error st))
            = AList.update (data_filename category api_name data_type) Unreadable (files st))
   \<and> (files (fst (save_point_data category geo_point data False W_io_error st)) = files st
        \<or> files (fst (save_point_data category geo_point data False W_io_error st))
            = AList.update (point_filename category geo_point) Unreadable (files st))
   \<and> (parsed_data \<noteq> [] \<longrightarrow>
        load_existing (files st) (data_filename category api_name data_type) False = Some (JArr E) \<longrightarrow>
        (\<forall>r\<in>set E \<union> set parsed_data. key_of nid r \<noteq> None) \<longrightarrow>
        filter (\<lambda>r. key_of nid r \<notin> key_of nid ` set E) parsed_data \<noteq> [] \<longrightarrow>
        save_data category parsed_data api_name data_type False W_io_error st
          = (st\<lparr>files := AList.update (data_filename category api_name data_type) Unreadable (files st),
                 out := out st @
                   [Log INFO (New_records_found
                      (length (filter (\<lambda>r. key_of nid r \<notin> key_of nid ` set E) parsed_data))
                      api_name data_type),
                    Log ERROR (Write_failed (data_filename category api_name data_type)),
                    Print (Write_failed (data_filename category api_name data_type))]\<rparr>, None)
        \<and> save_data category parsed_data api_name data_type False W_open_error st
          = (st\<lparr>out := out st @
                   [Log INFO (New_records_found
                      (length (filter (\<lambda>r. key_of nid r \<notin> key_of nid ` set E) parsed_data))
                      api_name data_type),
                    Log ERROR (Write_failed (data_filename category api_name data_type)),
                    Print (Write_failed (data_filename category api_name data_type))]\<rparr>, None))
   \<and> (nodes_of data = Inr (Some (JArr items)) \<longrightarrow>
        load_existing (files st) (point_filename category geo_point) False = Some (JArr E') \<longrightarrow>
        (\<forall>r\<in>set E' \<union> set items. key_of period r \<noteq> None) \<longrightarrow>
        filter (\<lambda>r. key_of period r \<notin> key_of period ` set E') items \<noteq> [] \<longrightarrow>
        save_point_data category geo_point data False W_io_error st
          = (st\<lparr>files := AList.update (point_filename category geo_point) Unreadable (files st),
                 out := out st @
                   [Log INFO (Point_new_records_found
                      (length (filter (\<lambda>r. key_of period r \<notin> key_of period ` set E') items)) geo_point),
                    Log ERROR (Write_failed (point_filename category geo_point))]\<rparr>, None)
        \<and> save_point_data category geo_point data False W_open_error st
          = (st\<lparr>out := out st @
                   [Log INFO (Point_new_records_found
                      (length (filter (\<lambda>r. key_of period r \<notin> key_of period ` set E') items)) geo_point),
                    Log ERROR (Write_failed (point_filename category geo_point))]\<rparr>, None))
   \<and> (parsed_data \<noteq> [] \<longrightarrow>
        save_data category parsed_data api_name data_type True W_open_error st
          = (st\<lparr>out := out st @ [Log ERROR (Write_failed (data_filename category api_name data_type)),
                                  Print (Write_failed (data_filename category api_name data_type))]\<rparr>, None))
   \<and> (nodes_of data = Inr (Some nodes) \<longrightarrow>
        save_point_data category geo_point data True W_open_error st
          = (st\<lparr>out := out st @ [Log ERROR (Write_failed (point_filename category geo_point))]\<rparr>, None))"
proof -
  have a: "files (fst (save_data category parsed_data api_name data_type initial_parse W_open_error st)) = files st"
    using save_data_files[of category parsed_data api_name data_type initial_parse W_open_error st] by auto
  have b: "files (fst (save_point_data category geo_point data initial_parse W_open_error st)) = files st"
    using save_point_data_files[of category geo_point data initial_parse W_open_error st] by auto
  have c: "parsed_data \<noteq> [] \<longrightarrow>
        save_data category parsed_data api_name data_type True W_io_error st
          = (st\<lparr>files := AList.update (data_filename category api_name data_type) Unreadable (files st),
                 out := out st @ [Log ERROR (Write_failed (data_filename category api_name data_type)),
                                  Print (Write_failed (data_filename category api_name data_type))]\<rparr>, None)"
    using save_data_initial_failed_write[of parsed_data W_io_error category api_name data_type st] by simp
  have d: "nodes_of data = Inr (Some nodes) \<longrightarrow>
        save_point_data category geo_point data True W_io_error st
          = (st\<lparr>files := AList.update (point_filename category geo_point) Unreadable (files st),
                 out := out st @ [Log ERROR (Write_failed (point_filename category geo_point))]\<rparr>, None)"
    using save_point_data_initial_failed_write[of data nodes W_io_error category geo_point st] by simp
  have e: "files (fst (save_data category parsed_data api_name data_type False W_io_error st)) = files st
        \<or> files (fst (save_data category parsed_data api_name data_type False W_io_error st))
            = AList.update (data_filename category api_name data_type) Unreadable (files st)"
    using save_data_files[of category parsed_data api_name data_type False W_io_error st] by auto
  have f: "files (fst (save_point_data category geo_point data False W_io_error st)) = files st
        \<or> files (fst (save_point_data category geo_point data False W_io_error st))
            = AList.update (point_filename category geo_point) Unreadable (files st)"
    using save_point_data_files[of category geo_point data False W_io_error st] by auto
  have g: "parsed_data \<noteq> [] \<longrightarrow>
        load_existing (files st) (data_filename category api_name data_type) False = Some (JArr E) \<longrightarrow>
        (\<forall>r\<in>set E \<union> set parsed_data. key_of nid r \<noteq> None) \<longrightarrow>
        filter (\<lambda>r. key_of nid r \<notin> key_of nid ` set E) parsed_data \<noteq> [] \<longrightarrow>
        save_data category parsed_data api_name data_type False W_io_error st
          = (st\<lparr>files := AList.update (data_filename category api_name data_type) Unreadable (files st),
                 out := out st @
                   [Log INFO (New_records_found
                      (length (filter (\<lambda>r. key_of nid r \<notin> key_of nid ` set E) parsed_data))
                      api_name data_type),
                    Log ERROR (Write_failed (data_filename category api_name data_type)),
                    Print (Write_failed (data_filename category api_name data_type))]\<rparr>, None)
        \<and> save_data category parsed_data api_name data_type False W_open_error st
          = (st\<lparr>out := out st @
                   [Log INFO (New_records_found
                      (length (filter (\<lambda>r. key_of nid r \<notin> key_of nid ` set E) parsed_data))
                      api_name data_type),
                    Log ERROR (Write_failed (data_filename category api_name data_type)),
                    Print (Write_failed (data_filename category api_name data_type))]\<rparr>, None)"
    using save_data_incremental_failed_write[where parsed_data = parsed_data and st = st
        and category = category and api_name = api_name and data_type = data_type and E = E
        and new = "filter (\<lambda>r. key_of nid r \<notin> key_of nid ` set E) parsed_data" and w = W_io_error]
      save_data_incremental_failed_write[where parsed_data = parsed_data and st = st
        and category = category and api_name = api_name and data_type = data_type and E = E
        and new = "filter (\<lambda>r. key_of nid r \<notin> key_of nid ` set E) parsed_data" and w = W_open_error]
    by simp
  have h: "nodes_of data = Inr (Some (JArr items)) \<longrightarrow>
        load_existing (files st) (point_filename category geo_point) False = Some (JArr E') \<longrightarrow>
        (\<forall>r\<in>set E' \<union> set items. key_of period r \<noteq> None) \<longrightarrow>
        filter (\<lambda>r. key_of period r \<notin> key_of period ` set E') items \<noteq> [] \<longrightarrow>
        save_point_data category geo_point data False W_io_error st
          = (st\<lparr>files := AList.update (point_filename category geo_point) Unreadable (files st),
                 out := out st @
                   [Log INFO (Point_new_records_found
                      (length (filter (\<lambda>r. key_of period r \<notin> key_of period ` set E') items)) geo_point),
                    Log ERROR (Write_failed (point_filename category geo_point))]\<rparr>, None)
        \<and> save_point_data category geo_point data False W_open_error st
          = (st\<lparr>out := out st @
                   [Log INFO (Point_new_records_found
                      (length (filter (\<lambda>r. key_of period r \<notin> key_of period ` set E') items)) geo_point),
                    Log ERROR (Write_failed (point_filename category geo_point))]\<rparr>, None)"
    using save_point_data_incremental_failed_write[where data = data and items = items and st = st
        and category = category and geo_point = geo_point and E = E'
        and new = "filter (\<lambda>r. key_of period r \<notin> key_of period ` set E') items" and w = W_io_error]
      save_point_data_incremental_failed_write[where data = data and items = items and st = st
        and category = category and geo_point = geo_point and E = E'
        and new = "filter (\<lambda>r. key_of period r \<notin> key_of period ` set E') items" and w = W_open_error]
    by simp
  have i: "parsed_data \<noteq> [] \<longrightarrow>
        save_data category parsed_data api_name data_type True W_open_error st
          = (st\<lparr>out := out st @ [Log ERROR (Write_failed (data_filename category api_name data_type)),
                                  Print (Write_failed (data_filename category api_name data_type))]\<rparr>, None)"
    using save_data_initial_failed_write[of parsed_data W_open_error category api_name data_type st] by simp
  have j: "nodes_of data = Inr (Some nodes) \<longrightarrow>
        save_point_data category geo_point data True W_open_error st
          = (st\<lparr>out := out st @ [Log ERROR (Write_failed (point_filename category geo_point))]\<rparr>, None)"
    using save_point_data_initial_failed_write[of data nodes W_open_error category geo_point st] by simp
  from a b c d e f g h i j show ?thesis by blast
qed

theorem write_failure_outcomes_witness:
  "[JObj [(''Nid'', JNum 2)]] \<noteq> []
   \<and> load_existing [(''air/ala_place_data.json'', Document (JArr [JObj [(''Nid'', JNum 1)]]))]
        (data_filename ''air'' ''ala_place'' ''data'') False = Some (JArr [JObj [(''Nid'', JNum 1)]])
   \<and> key_of nid (JObj [(''Nid'', JNum 1)]) = Some (KNum 1)
   \<and> key_of nid (JObj [(''Nid'', JNum 2)]) = Some (KNum 2)
   \<and> save_data ''air'' [JObj [(''Nid'', JNum 2)]] ''ala_place'' ''data'' False W_io_error
        \<lparr>files = [(''air/ala_place_data.json'', Document (JArr [JObj [(''Nid'', JNum 1)]]))], out = []\<rparr>
      = (\<lparr>files = [(''air/ala_place_data.json'', Unreadable)],
          out = [Log INFO (New_records_found 1 ''ala_place'' ''data''),
                 Log ERROR (Write_failed ''air/ala_place_data.json''),
                 Print (Write_failed ''air/ala_place_data.json'')]\<rparr>, None)
   \<and> save_data ''air'' [JObj [(''Nid'', JNum 2)]] ''ala_place'' ''data'' False W_open_error
        \<lparr>files = [(''air/ala_place_data.json'', Document (JArr [JObj [(''Nid'', JNum 1)]]))], out = []\<rparr>
      = (\<lparr>files = [(''air/ala_place_data.json'', Document (JArr [JObj [(''Nid'', JNum 1)]]))],
          out = [Log INFO (New_records_found 1 ''ala_place'' ''data''),
                 Log ERROR (Write_failed ''air/ala_place_data.json''),
                 Print (Write_failed ''air/ala_place_data.json'')]\<rparr>, None)
   \<and> save_data ''air'' [JObj [(''Nid'', JNum 2)]] ''ala_place'' ''data'' True W_io_error
        \<lparr>files = [(''air/ala_place_data.json'', Document (JArr [JObj [(''Nid'', JNum 1)]]))], out = []\<rparr>
      = (\<lparr>files = [(''air/ala_place_data.json'', Unreadable)],
          out = [Log ERROR (Write_failed ''air/ala_place_data.json''),
                 Print (Write_failed ''air/ala_place_data.json'')]\<rparr>, None)"
  using write_failure_outcomes
    [where st = "\<lparr>files = [(''air/ala_place_data.json'', Document (JArr [JObj [(''Nid'', JNum 1)]]))], out = []\<rparr>"
       and category = "''air''" and api_name = "''ala_place''"
       and data_type = "''data''" and parsed_data = "[JObj [(''Nid'', JNum 2)]]" and initial_parse = False
       and E = "[JObj [(''Nid'', JNum 1)]]"]
  by (simp add: data_filename_def load_existing_def path_exists_def read_json_def key_of_def nid_def)

text \<open>
  The claim as stated fails: the snapshot \<^verbatim>\<open>[{Nid: 1}]\<close> is lost when the write of the
  merged data fails after the file was opened.
\<close>

theorem write_failure_counterexample:
  "map_of [(''air/ala_place_data.json'', Document (JArr [JObj [(''Nid'', JNum 1)]]))] ''air/ala_place_data.json''
     = Some (Document (JArr [JObj [(''Nid'', JNum 1)]]))
   \<and> map_of
       (files (fst (save_data ''air'' [JObj [(''Nid'', JNum 2)]] ''ala_place'' ''data'' False W_io_error
          \<lparr>files = [(''air/ala_place_data.json'', Document (JArr [JObj [(''Nid'', JNum 1)]]))], out = []\<rparr>)))
       ''air/ala_place_data.json''
     = Some Unreadable"
  by (simp add: save_data_def data_filename_def load_existing_def path_exists_def read_json_def
      find_new_def nid_def write_snapshot_def report_def emit_def Let_def)

subsection \<open>Sequences of merges\<close>

lemma save_data_step_append:
  assumes "snapshot (files st) (data_filename c a d) = Some rs" and "w \<noteq> W_io_error"
  shows "\<exists>added. snapshot (files (fst (save_data c pd a d False w st))) (data_filename c a d) = Some (rs @ added)"
proof -
  from save_data_files[of c pd a d False w st]
  consider "files (fst (save_data c pd a d False w st)) = files st"
    | new where "files (fst (save_data c pd a d False w st))
          = fst (write_json w (data_filename c a d) (JArr (rs @ new)) (files st))"
    using load_existing_snapshot[OF assms(1)] by auto
  then show ?thesis
  proof cases
    case 1
    with assms(1) show ?thesis by simp
  next
    case 2
    show ?thesis
    proof (cases w)
      case W_ok
      with 2 show ?thesis by (simp add: snapshot_update_same)
    next
      case W_open_error
      with 2 assms(1) show ?thesis by simp
    next
      case W_io_error
      with assms(2) show ?thesis by simp
    qed
  qed
qed

lemma save_point_data_step_append:
  assumes "snapshot (files st) (point_filename c g) = Some rs" and "w \<noteq> W_io_error"
  shows "\<exists>added. snapshot (files (fst (save_point_data c g data False w st))) (point_filename c g) = Some (rs @ added)"
proof -
  from save_point_data_files[of c g data False w st]
  consider "files (fst (save_point_data c g data False w st)) = files st"
    | new where "files (fst (save_point_data c g data False w st))
          = fst (write_json w (point_filename c g) (JArr (rs @ new)) (files st))"
    using load_existing_snapshot[OF assms(1)] by auto
  then show ?thesis
  proof cases
    case 1
    with assms(1) show ?thesis by simp
  next
    case 2
    show ?thesis
    proof (cases w)
      case W_ok
      with 2 show ?thesis by (simp add: snapshot_update_same)
    next
      case W_open_error
      with 2 assms(1) show ?thesis by simp
    next
      case W_io_error
      with assms(2) show ?thesis by simp
    qed
  qed
qed

lemma save_data_runs_Nil [simp]: "save_data_runs c a d [] st = st"
  by (simp add: save_data_runs_def)

lemma save_data_runs_snoc:
  "save_data_runs c a d (calls @ [(pd, ini, w)]) st
     = fst (save_data c pd a d ini w (save_data_runs c a d calls st))"
  by (simp add: save_data_runs_def)

lemma save_point_data_runs_Nil [simp]: "save_point_data_runs c g [] st = st"
  by (simp add: save_point_data_runs_def)

lemma save_point_data_runs_snoc:
  "save_point_data_runs c g (calls @ [(data, ini, w)]) st
     = fst (save_point_data c g data ini w (save_point_data_runs c g calls st))"
  by (simp add: save_point_data_runs_def)

lemma save_data_runs_append_only:
  assumes "snapshot (files st) (data_filename c a d) = Some E"
    and "\<forall>call\<in>set calls. \<not> fst (snd call) \<and> snd (snd call) \<noteq> W_io_error"
  shows "\<exists>added. snapshot (files (save_data_runs c a d calls st)) (data_filename c a d) = Some (E @ added)"
  using assms(2)
proof (induction calls rule: rev_induct)
  case Nil
  with assms(1) show ?case by simp
next
  case (snoc call calls)
  obtain pd ini w where call: "call = (pd, ini, w)" by (cases call)
  from snoc call have w: "\<not> ini" "w \<noteq> W_io_error" by auto
  from snoc obtain added where
    "snapshot (files (save_data_runs c a d calls st)) (data_filename c a d) = Some (E @ added)"
    by auto
  from save_data_step_append[OF this w(2), of pd] w(1) call
  show ?case by (auto simp: save_data_runs_snoc)
qed

lemma save_point_data_runs_append_only:
  assumes "snapshot (files st) (point_filename c g) = Some E"
    and "\<forall>call\<in>set calls. \<not> fst (snd call) \<and> snd (snd call) \<noteq> W_io_error"
  shows "\<exists>added. snapshot (files (save_point_data_runs c g calls st)) (point_filename c g) = Some (E @ added)"
  using assms(2)
proof (induction calls rule: rev_induct)
  case Nil
  with assms(1) show ?case by simp
next
  case (snoc call calls)
  obtain data ini w where call: "call = (data, ini, w)" by (cases call)
  from snoc call have w: "\<not> ini" "w \<noteq> W_io_error" by auto
  from snoc obtain added where
    "snapshot (files (save_point_data_runs c g calls st)) (point_filename c g) = Some (E @ added)"
    by auto
  from save_point_data_step_append[OF this w(2), of data] w(1) call
  show ?case by (auto simp: save_point_data_runs_snoc)
qed

text \<open>
  Claim C5, as the code has it. Along any sequence of incremental merges none of whose
  writes fails after the file was opened, a snapshot file that holds the records \<open>E\<close>
  holds \<open>E\<close> followed by further records at the end; and each single merge of the
  sequence turns the records \<open>before\<close> into \<open>before\<close> followed by the added ones. So the
  number of records never falls and every record stays, unchanged, where it was. This
  holds for \<^verbatim>\<open>save_data\<close> and for \<^verbatim>\<open>save_point_data\<close>, whatever the records of the
  calls, and also when a write fails on opening the file or a call raises.
\<close>

theorem incremental_merges_append_only:
  assumes "\<forall>(parsed_data, initial_parse, w)\<in>set calls. \<not> initial_parse \<and> w \<noteq> W_io_error"
    and "\<forall>(data, initial_parse, w)\<in>set point_calls. \<not> initial_parse \<and> w \<noteq> W_io_error"
  shows
  "(snapshot (files st) (data_filename category api_name data_type) = Some E \<longrightarrow>
     (\<exists>added. snapshot (files (save_data_runs category api_name data_type calls st))
                 (data_filename category api_name data_type) = Some (E @ added)) \<and>
     (\<forall>n<length calls. \<exists>before added.
        snapshot (files (save_data_runs category api_name data_type (take n calls) st))
          (data_filename category api_name data_type) = Some before \<and>
        snapshot (files (save_data_runs category api_name data_type (take (Suc n) calls) st))
          (data_filename category api_name data_type) = Some (before @ added)))
   \<and> (snapshot (files st) (point_filename category geo_point) = Some E \<longrightarrow>
     (\<exists>added. snapshot (files (save_point_data_runs category geo_point point_calls st))
                 (point_filename category geo_point) = Some (E @ added)) \<and>
     (\<forall>n<length point_calls. \<exists>before added.
        snapshot (files (save_point_data_runs category geo_point (take n point_calls) st))
          (point_filename category geo_point) = Some before \<and>
        snapshot (files (save_point_data_runs category geo_point (take (Suc n) point_calls) st))
          (point_filename category geo_point) = Some (before @ added)))"
proof (intro conjI impI allI)
  assume E: "snapshot (files st) (data_filename category api_name data_type) = Some E"
  have ok: "\<forall>call\<in>set cs. \<not> fst (snd call) \<and> snd (snd call) \<noteq> W_io_error" if "set cs \<subseteq> set calls" for cs
    using assms(1) that by auto
  show "\<exists>added. snapshot (files (save_data_runs category api_name data_type calls st))
                 (data_filename category api_name data_type) = Some (E @ added)"
    using save_data_runs_append_only[OF E ok[of calls]] by simp
  fix n assume n: "n < length calls"
  obtain pd ini w where call: "calls ! n = (pd, ini, w)" by (cases "calls ! n")
  from n have mem: "calls ! n \<in> set calls" by simp
  with assms(1) call have w: "\<not> ini" "w \<noteq> W_io_error" by auto
  from save_data_runs_append_only[OF E ok[of "take n calls"]] obtain a where
    a: "snapshot (files (save_data_runs category api_name data_type (take n calls) st))
          (data_filename category api_name data_type) = Some (E @ a)"
    by (auto dest: in_set_takeD)
  from save_data_step_append[OF a w(2), of pd] w(1) call n
  show "\<exists>before added.
        snapshot (files (save_data_runs category api_name data_type (take n calls) st))
          (data_filename category api_name data_type) = Some before \<and>
        snapshot (files (save_data_runs category api_name data_type (take (Suc n) calls) st))
          (data_filename category api_name data_type) = Some (before @ added)"
    using a by (auto simp: take_Suc_conv_app_nth save_data_runs_snoc)
next
  assume E: "snapshot (files st) (point_filename category geo_point) = Some E"
  have ok: "\<forall>call\<in>set cs. \<not> fst (snd call) \<and> snd (snd call) \<noteq> W_io_error" if "set cs \<subseteq> set point_calls" for cs
    using assms(2) that by auto
  show "\<exists>added. snapshot (files (save_point_data_runs category geo_point point_calls st))
                 (point_filename category geo_point) = Some (E @ added)"
    using save_point_data_runs_append_only[OF E ok[of point_calls]] by simp
  fix n assume n: "n < length point_calls"
  obtain data ini w where call: "point_calls ! n = (data, ini, w)" by (cases "point_calls ! n")
  from n have mem: "point_calls ! n \<in> set point_calls" by simp
  with assms(2) call have w: "\<not> ini" "w \<noteq> W_io_error" by auto
  from save_point_data_runs_append_only[OF E ok[of "take n point_calls"]] obtain a where
    a: "snapshot (files (save_point_data_runs category geo_point (take n point_calls) st))
          (point_filename category geo_point) = Some (E @ a)"
    by (auto dest: in_set_takeD)
  from save_point_data_step_append[OF a w(2), of data] w(1) call n
  show "\<exists>before added.
        snapshot (files (save_point_data_runs category geo_point (take n point_calls) st))
          (point_filename category geo_point) = Some before \<and>
        snapshot (files (save_point_data_runs category geo_point (take (Suc n) point_calls) st))
          (point_filename category geo_point) = Some (before @ added)"
    using a by (auto simp: take_Suc_conv_app_nth save_point_data_runs_snoc)
qed

theorem incremental_merges_append_only_witness:
  "snapshot [(''air/ala_place_data.json'', Document (JArr [JObj [(''Nid'', JNum 1)]]))]
       (data_filename ''air'' ''ala_place'' ''data'') = Some [JObj [(''Nid'', JNum 1)]]
   \<and> (\<exists>added.
        snapshot
          (files (save_data_runs ''air'' ''ala_place'' ''data''
             [([JObj [(''Nid'', JNum 2)]], False, W_ok),
              ([JObj [(''Nid'', JNum 2)], JObj [(''Nid'', JNum 3)]], False, W_open_error)]
             \<lparr>files = [(''air/ala_place_data.json'', Document (JArr [JObj [(''Nid'', JNum 1)]]))], out = []\<rparr>))
          (data_filename ''air'' ''ala_place'' ''data'')
        = Some ([JObj [(''Nid'', JNum 1)]] @ added))"
proof -
  have h1: "\<forall>(parsed_data, initial_parse, w)
              \<in>set [([JObj [(''Nid'', JNum 2)]], False, W_ok),
                    ([JObj [(''Nid'', JNum 2)], JObj [(''Nid'', JNum 3)]], False, W_open_error)].
              \<not> initial_parse \<and> w \<noteq> W_io_error"
    by simp
  have h2: "\<forall>(data, initial_parse, w)\<in>set ([] :: (json \<times> bool \<times> write_outcome) list).
              \<not> initial_parse \<and> w \<noteq> W_io_error"
    by simp
  have h3: "snapshot (files \<lparr>files = [(''air/ala_place_data.json'', Document (JArr [JObj [(''Nid'', JNum 1)]]))],
                              out = []\<rparr>)
              (data_filename ''air'' ''ala_place'' ''data'') = Some [JObj [(''Nid'', JNum 1)]]"
    by (simp add: snapshot_def data_filename_def)
  from incremental_merges_append_only [OF h1 h2,
      where st = "\<lparr>files = [(''air/ala_place_data.json'', Document (JArr [JObj [(''Nid'', JNum 1)]]))], out = []\<rparr>"
        and category = "''air''" and api_name = "''ala_place''" and data_type = "''data''"
        and E = "[JObj [(''Nid'', JNum 1)]]"] h3
  show ?thesis by simp
qed

text \<open>
  The claim as stated fails: one incremental merge whose write fails after the file was
  opened leaves no record of the snapshot \<^verbatim>\<open>[{Nid: 1}]\<close>.
\<close>

theorem incremental_write_failure_counterexample:
  "snapshot [(''air/ala_place_data.json'', Document (JArr [JObj [(''Nid'', JNum 1)]]))]
       ''air/ala_place_data.json'' = Some [JObj [(''Nid'', JNum 1)]]
   \<and> snapshot
       (files (save_data_runs ''air'' ''ala_place'' ''data'' [([JObj [(''Nid'', JNum 2)]], False, W_io_error)]
          \<lparr>files = [(''air/ala_place_data.json'', Document (JArr [JObj [(''Nid'', JNum 1)]]))], out = []\<rparr>))
       ''air/ala_place_data.json'' = None"
  by (simp add: save_data_runs_def save_data_def data_filename_def load_existing_def path_exists_def
      read_json_def find_new_def nid_def write_snapshot_def report_def emit_def Let_def snapshot_def)


subsection \<open>Unique identities\<close>

lemma distinct_merge:
  assumes E: "distinct (map (key_of ident) E)"
    and pd: "distinct (map (key_of ident) items)"
  shows "distinct (map (key_of ident) (E @ filter (\<lambda>x. key_of ident x \<notin> key_of ident ` set E) items))"
proof -
  have "distinct (map (key_of ident) (filter (\<lambda>x. key_of ident x \<notin> key_of ident ` set E) items))"
    using pd by (rule distinct_map_filter)
  moreover have "key_of ident ` set E \<inter>
      key_of ident ` set (filter (\<lambda>x. key_of ident x \<notin> key_of ident ` set E) items) = {}"
    by (auto simp: image_iff)
  ultimately show ?thesis using E by simp
qed

lemma nodes_of_truthy: "nodes_of data = Inr (Some nodes) \<Longrightarrow> truthy nodes"
  by (auto simp: nodes_of_def split: if_splits sum.splits)

lemma key_of_period_JStr [simp]: "key_of period (JStr s) = None"
  by (simp add: key_of_def period_def)

lemma find_new_period_JArr:
  assumes "find_new period existing nodes = Inr new" and "truthy nodes"
  shows "\<exists>items. nodes = JArr items"
proof -
  from assms(1) obtain items where it: "py_iter nodes = Inr items"
    and keys: "\<forall>x\<in>set items. key_of period x \<noteq> None"
    by (auto simp: find_new_Inr_iff)
  show ?thesis
  proof (cases nodes)
    case (JObj kvs)
    with assms(2) it keys show ?thesis by (cases kvs) auto
  next
    case (JStr s)
    with assms(2) it keys show ?thesis by (cases s) auto
  qed (use it in auto)
qed

lemma unique_keys_write:
  assumes inv: "unique_keys ident fs p"
    and j: "\<forall>rs. j = JArr rs \<longrightarrow> distinct (map (key_of ident) rs)"
  shows "unique_keys ident (fst (write_json w p j fs)) p"
proof (cases w)
  case W_ok
  with j show ?thesis
    by (auto simp: unique_keys_def snapshot_update_same split: json.splits)
next
  case W_open_error
  with inv show ?thesis by simp
next
  case W_io_error
  then show ?thesis by (simp add: unique_keys_def snapshot_update_same)
qed

lemma load_existing_unique:
  assumes "unique_keys ident fs p" and "load_existing fs p False = Some (JArr E)"
  shows "distinct (map (key_of ident) E)"
  using load_existing_JArr_cases[OF assms(2)] assms(1)
  by (auto simp: unique_keys_def)

lemma save_data_step_unique:
  assumes inv: "unique_keys nid (files st) (data_filename c a d)"
    and pd: "distinct (map (key_of nid) pd)"
  shows "unique_keys nid (files (fst (save_data c pd a d ini w st))) (data_filename c a d)"
proof -
  from save_data_files[of c pd a d ini w st]
  consider "files (fst (save_data c pd a d ini w st)) = files st"
    | j where "files (fst (save_data c pd a d ini w st)) = fst (write_json w (data_filename c a d) j (files st))"
      and "if ini then j = JArr pd
           else \<exists>E new. load_existing (files st) (data_filename c a d) False = Some (JArr E) \<and>
                  find_new nid (JArr E) (JArr pd) = Inr new \<and> new \<noteq> [] \<and> j = JArr (E @ new)"
    by blast
  then show ?thesis
  proof cases
    case 1
    with inv show ?thesis by simp
  next
    case 2
    have "\<forall>rs. j = JArr rs \<longrightarrow> distinct (map (key_of nid) rs)"
    proof (cases ini)
      case True
      with 2(2) pd show ?thesis by simp
    next
      case False
      with 2(2) obtain E new where E: "load_existing (files st) (data_filename c a d) False = Some (JArr E)"
        and new: "find_new nid (JArr E) (JArr pd) = Inr new" and j: "j = JArr (E @ new)"
        by auto
      from new have "new = filter (\<lambda>x. key_of nid x \<notin> key_of nid ` set E) pd"
        by (simp add: find_new_Inr_iff)
      with distinct_merge[OF load_existing_unique[OF inv E] pd] j show ?thesis by simp
    qed
    with inv 2(1) show ?thesis by (simp add: unique_keys_write)
  qed
qed

lemma save_point_data_step_unique:
  assumes inv: "unique_keys period (files st) (point_filename c g)"
    and pd: "\<forall>items. nodes_of data = Inr (Some (JArr items)) \<longrightarrow> distinct (map (key_of period) items)"
  shows "unique_keys period (files (fst (save_point_data c g data ini w st))) (point_filename c g)"
proof -
  from save_point_data_files[of c g data ini w st]
  consider "files (fst (save_point_data c g data ini w st)) = files st"
    | j nodes where "files (fst (save_point_data c g data ini w st)) = fst (write_json w (point_filename c g) j (files st))"
      and "nodes_of data = Inr (Some nodes)"
      and "if ini then j = nodes
           else \<exists>E new. load_existing (files st) (point_filename c g) False = Some (JArr E) \<and>
                  find_new period (JArr E) nodes = Inr new \<and> new \<noteq> [] \<and> j = JArr (E @ new)"
    by blast
  then show ?thesis
  proof cases
    case 1
    with inv show ?thesis by simp
  next
    case 2
    have "\<forall>rs. j = JArr rs \<longrightarrow> distinct (map (key_of period) rs)"
    proof (cases ini)
      case True
      with 2(2,3) pd show ?thesis by simp
    next
      case False
      with 2(3) obtain E new where E: "load_existing (files st) (point_filename c g) False = Some (JArr E)"
        and new: "find_new period (JArr E) nodes = Inr new" and j: "j = JArr (E @ new)"
        by auto
      from find_new_period_JArr[OF new nodes_of_truthy[OF 2(2)]] obtain items where items: "nodes = JArr items"
        by blast
      from new items have "new = filter (\<lambda>x. key_of period x \<notin> key_of period ` set E) items"
        by (simp add: find_new_Inr_iff)
      moreover from pd 2(2) items have "distinct (map (key_of period) items)" by simp
      ultimately show ?thesis
        using distinct_merge[OF load_existing_unique[OF inv E], of items] j by simp
    qed
    with inv 2(1) show ?thesis by (simp add: unique_keys_write)
  qed
qed

text \<open>
  Claim C1, as the code has it. The merge compares the fetched records with the records
  of the file only, never with each other. So: when the records of the snapshot file
  have pairwise distinct identities and so have the records of every call, then after
  any sequence of calls, in either mode and however the writes end, the records of the
  file have pairwise distinct identities. This holds for \<^verbatim>\<open>save_data\<close> with \<^verbatim>\<open>"Nid"\<close>
  and for \<^verbatim>\<open>save_point_data\<close> with the period of the node.
\<close>

theorem merges_keep_keys_unique:
  "(unique_keys nid (files st) (data_filename category api_name data_type) \<longrightarrow>
    (\<forall>(parsed_data, initial_parse, w)\<in>set calls. distinct (map (key_of nid) parsed_data)) \<longrightarrow>
    unique_keys nid (files (save_data_runs category api_name data_type calls st))
      (data_filename category api_name data_type))
   \<and> (unique_keys period (files st) (point_filename category geo_point) \<longrightarrow>
    (\<forall>(data, initial_parse, w)\<in>set point_calls.
        \<forall>items. nodes_of data = Inr (Some (JArr items)) \<longrightarrow> distinct (map (key_of period) items)) \<longrightarrow>
    unique_keys period (files (save_point_data_runs category geo_point point_calls st))
      (point_filename category geo_point))"
proof (intro conjI impI)
  assume inv: "unique_keys nid (files st) (data_filename category api_name data_type)"
    and calls: "\<forall>(parsed_data, initial_parse, w)\<in>set calls. distinct (map (key_of nid) parsed_data)"
  from calls show "unique_keys nid (files (save_data_runs category api_name data_type calls st))
      (data_filename category api_name data_type)"
  proof (induction calls rule: rev_induct)
    case Nil
    with inv show ?case by simp
  next
    case (snoc call calls)
    obtain pd ini w where call: "call = (pd, ini, w)" by (cases call)
    with snoc show ?case
      by (auto simp: save_data_runs_snoc intro!: save_data_step_unique)
  qed
next
  assume inv: "unique_keys period (files st) (point_filename category geo_point)"
    and calls: "\<forall>(data, initial_parse, w)\<in>set point_calls.
        \<forall>items. nodes_of data = Inr (Some (JArr items)) \<longrightarrow> distinct (map (key_of period) items)"
  from calls show "unique_keys period (files (save_point_data_runs category geo_point point_calls st))
      (point_filename category geo_point)"
  proof (induction point_calls rule: rev_induct)
    case Nil
    with inv show ?case by simp
  next
    case (snoc call calls)
    obtain data ini w where call: "call = (data, ini, w)" by (cases call)
    with snoc show ?case
      by (auto simp: save_point_data_runs_snoc intro!: save_point_data_step_unique)
  qed
qed

theorem merges_keep_keys_unique_witness:
  "unique_keys nid [] (data_filename ''air'' ''ala_place'' ''data'')
   \<and> distinct (map (key_of nid) [JObj [(''Nid'', JNum 1)], JObj [(''Nid'', JNum 2)]])
   \<and> distinct (map (key_of nid) [JObj [(''Nid'', JNum 2)], JObj [(''Nid'', JNum 3)]])
   \<and> unique_keys nid
       (files (save_data_runs ''air'' ''ala_place'' ''data''
          [([JObj [(''Nid'', JNum 1)], JObj [(''Nid'', JNum 2)]], True, W_ok),
           ([JObj [(''Nid'', JNum 2)], JObj [(''Nid'', JNum 3)]], False, W_ok)]
          \<lparr>files = [], out = []\<rparr>))
       (data_filename ''air'' ''ala_place'' ''data'')
   \<and> unique_keys period [] (point_filename ''air'' ''12'')
   \<and> nodes_of (JObj [(''nodes'', JArr [JObj [(''node'', JObj [(''field_period'', JStr ''2024'')])]])])
       = Inr (Some (JArr [JObj [(''node'', JObj [(''field_period'', JStr ''2024'')])]]))
   \<and> distinct (map (key_of period) [JObj [(''node'', JObj [(''field_period'', JStr ''2024'')])]])
   \<and> unique_keys period
       (files (save_point_data_runs ''air'' ''12''
          [(JObj [(''nodes'', JArr [JObj [(''node'', JObj [(''field_period'', JStr ''2024'')])]])], False, W_ok)]
          \<lparr>files = [], out = []\<rparr>))
       (point_filename ''air'' ''12'')"
  using merges_keep_keys_unique
    [where st = "\<lparr>files = [], out = []\<rparr>" and category = "''air''" and api_name = "''ala_place''"
       and data_type = "''data''" and geo_point = "''12''"
       and calls = "[([JObj [(''Nid'', JNum 1)], JObj [(''Nid'', JNum 2)]], True, W_ok),
                     ([JObj [(''Nid'', JNum 2)], JObj [(''Nid'', JNum 3)]], False, W_ok)]"
       and point_calls = "[(JObj [(''nodes'', JArr [JObj [(''node'', JObj [(''field_period'', JStr ''2024'')])]])], False, W_ok)]"]
  by (simp add: unique_keys_def snapshot_def key_of_def nid_def period_def nodes_of_def)

text \<open>
  The claim as stated fails for a list that holds the same \<^verbatim>\<open>"Nid"\<close> twice: both
  records are written.
\<close>

theorem merge_duplicates_counterexample:
  "snapshot
     (files (fst (save_data ''air''
        [JObj [(''title'', JStr ''a''), (''Nid'', JStr ''7'')],
         JObj [(''title'', JStr ''b''), (''Nid'', JStr ''7'')]]
        ''ala_place'' ''data'' False W_ok \<lparr>files = [], out = []\<rparr>)))
     ''air/ala_place_data.json''
   = Some [JObj [(''title'', JStr ''a''), (''Nid'', JStr ''7'')],
           JObj [(''title'', JStr ''b''), (''Nid'', JStr ''7'')]]
   \<and> key_of nid (JObj [(''title'', JStr ''a''), (''Nid'', JStr ''7'')]) = Some (KStr ''7'')
   \<and> key_of nid (JObj [(''title'', JStr ''b''), (''Nid'', JStr ''7'')]) = Some (KStr ''7'')
   \<and> \<not> unique_keys nid
     (files (fst (save_data ''air''
        [JObj [(''title'', JStr ''a''), (''Nid'', JStr ''7'')],
         JObj [(''title'', JStr ''b''), (''Nid'', JStr ''7'')]]
        ''ala_place'' ''data'' False W_ok \<lparr>files = [], out = []\<rparr>)))
     ''air/ala_place_data.json''"
  by (simp add: save_data_def data_filename_def load_existing_def path_exists_def find_new_def
      nid_def key_of_def write_snapshot_def report_def emit_def snapshot_def unique_keys_def Let_def)

section \<open>Properties of fetching\<close>

lemma requests_simps [simp]:
  "requests [] = 0"
  "requests (Get u # evs) = Suc (requests evs)"
  "requests (Log lvl m # evs) = requests evs"
  "requests (Print m # evs) = requests evs"
  "requests (Sleep n # evs) = requests evs"
  "requests (Sleep_random # evs) = requests evs"
  "requests (evs @ evs') = requests evs + requests evs'"
  by (simp_all add: requests_def)

lemma sleeps_simps [simp]:
  "sleeps [] = []"
  "sleeps (Get u # evs) = sleeps evs"
  "sleeps (Log lvl m # evs) = sleeps evs"
  "sleeps (Print m # evs) = sleeps evs"
  "sleeps (Sleep n # evs) = n # sleeps evs"
  "sleeps (Sleep_random # evs) = sleeps evs"
  "sleeps (evs @ evs') = sleeps evs @ sleeps evs'"
  by (simp_all add: sleeps_def)

text \<open>One round of the loop that ends in a timeout, and one that ends in a fatal error.\<close>

lemma fetch_loop_timeout_step:
  assumes "attempts < max_attempts" and "timed_out (env (nat attempts))"
  shows "\<exists>evs. requests evs = 1 \<and> sleeps evs = [] \<and>
           fetch_loop env api_url max_attempts attempts st =
             (if attempts + 1 = max_attempts
              then (st\<lparr>out := out st @ evs @ [Log ERROR Attempts_exhausted]\<rparr>, Inr (JArr []))
              else fetch_loop env api_url max_attempts (attempts + 1)
                     (st\<lparr>out := out st @ evs @ [Sleep (2 ^ nat (attempts + 1))]\<rparr>))"
proof -
  from assms(2) consider "env (nat attempts) = Failed_request Timeout" | "env (nat attempts) = Failed_body Timeout"
    by (auto simp: timed_out_def)
  then show ?thesis
  proof cases
    case 1
    let ?evs = "[Log INFO (Attempt (nat (attempts + 1)) max_attempts api_url), Get api_url,
                 Log WARNING (Timed_out (nat (attempts + 1)) max_attempts api_url)]"
    have "fetch_loop env api_url max_attempts attempts st =
             (if attempts + 1 = max_attempts
              then (st\<lparr>out := out st @ ?evs @ [Log ERROR Attempts_exhausted]\<rparr>, Inr (JArr []))
              else fetch_loop env api_url max_attempts (attempts + 1)
                     (st\<lparr>out := out st @ ?evs @ [Sleep (2 ^ nat (attempts + 1))]\<rparr>))"
      using assms(1) 1
      by (subst fetch_loop.simps) (simp add: Let_def emit_def)
    moreover have "requests ?evs = 1" "sleeps ?evs = []" by simp_all
    ultimately show ?thesis by blast
  next
    case 2
    let ?evs = "[Log INFO (Attempt (nat (attempts + 1)) max_attempts api_url), Get api_url,
                 Log INFO Request_ok,
                 Log WARNING (Timed_out (nat (attempts + 1)) max_attempts api_url)]"
    have "fetch_loop env api_url max_attempts attempts st =
             (if attempts + 1 = max_attempts
              then (st\<lparr>out := out st @ ?evs @ [Log ERROR Attempts_exhausted]\<rparr>, Inr (JArr []))
              else fetch_loop env api_url max_attempts (attempts + 1)
                     (st\<lparr>out := out st @ ?evs @ [Sleep (2 ^ nat (attempts + 1))]\<rparr>))"
      using assms(1) 2
      by (subst fetch_loop.simps) (simp add: Let_def emit_def)
    moreover have "requests ?evs = 1" "sleeps ?evs = []" by simp_all
    ultimately show ?thesis by blast
  qed
qed

lemma fetch_loop_fatal_step:
  assumes "attempts < max_attempts"
    and "env (nat attempts) = Failed_request f \<or> env (nat attempts) = Failed_body f"
    and "f = Response_error status \<or> f = Client_error"
  shows "\<exists>evs. requests evs = 1 \<and> sleeps evs = [] \<and>
           fetch_loop env api_url max_attempts attempts st =
             (st\<lparr>out := out st @ evs @
                [Log ERROR (if f = Response_error 404 then Not_found api_url else Request_failed)]\<rparr>,
              Inr (JArr []))"
proof -
  from assms(2) show ?thesis
  proof
    assume 1: "env (nat attempts) = Failed_request f"
    let ?evs = "[Log INFO (Attempt (nat (attempts + 1)) max_attempts api_url), Get api_url]"
    have "fetch_loop env api_url max_attempts attempts st =
             (st\<lparr>out := out st @ ?evs @
                [Log ERROR (if f = Response_error 404 then Not_found api_url else Request_failed)]\<rparr>,
              Inr (JArr []))"
      using assms(1,3) 1
      by (subst fetch_loop.simps) (auto simp: Let_def emit_def fatal_def)
    moreover have "requests ?evs = 1" "sleeps ?evs = []" by simp_all
    ultimately show ?thesis by blast
  next
    assume 2: "env (nat attempts) = Failed_body f"
    let ?evs = "[Log INFO (Attempt (nat (attempts + 1)) max_attempts api_url), Get api_url,
                 Log INFO Request_ok]"
    have "fetch_loop env api_url max_attempts attempts st =
             (st\<lparr>out := out st @ ?evs @
                [Log ERROR (if f = Response_error 404 then Not_found api_url else Request_failed)]\<rparr>,
              Inr (JArr []))"
      using assms(1,3) 2
      by (subst fetch_loop.simps) (auto simp: Let_def emit_def fatal_def)
    moreover have "requests ?evs = 1" "sleeps ?evs = []" by simp_all
    ultimately show ?thesis by blast
  qed
qed

lemma fetch_loop_all_timeouts:
  assumes "0 \<le> attempts" and "attempts < max_attempts" and "\<forall>k. timed_out (env k)"
  shows "\<exists>evs. fetch_loop env api_url max_attempts attempts st = (st\<lparr>out := out st @ evs\<rparr>, Inr (JArr []))
           \<and> requests evs = nat (max_attempts - attempts)
           \<and> sleeps evs = map (\<lambda>i. 2 ^ i) [nat attempts + 1 ..< nat max_attempts]
           \<and> evs \<noteq> [] \<and> last evs = Log ERROR Attempts_exhausted"
  using assms(1,2)
proof (induction "nat (max_attempts - attempts)" arbitrary: attempts st)
  case 0
  then show ?case by simp
next
  case (Suc n)
  from assms(3) have t: "timed_out (env (nat attempts))" by simp
  from fetch_loop_timeout_step[where env = env and attempts = attempts and max_attempts = max_attempts
      and api_url = api_url and st = st, OF Suc.prems(2) t] obtain evs where
    evs: "requests evs = 1" "sleeps evs = []"
    and step: "fetch_loop env api_url max_attempts attempts st =
             (if attempts + 1 = max_attempts
              then (st\<lparr>out := out st @ evs @ [Log ERROR Attempts_exhausted]\<rparr>, Inr (JArr []))
              else fetch_loop env api_url max_attempts (attempts + 1)
                     (st\<lparr>out := out st @ evs @ [Sleep (2 ^ nat (attempts + 1))]\<rparr>))"
    by blast
  show ?case
  proof (cases "attempts + 1 = max_attempts")
    case True
    then have "nat max_attempts = nat attempts + 1" using Suc.prems by simp
    with True step evs show ?thesis
      by (intro exI[of _ "evs @ [Log ERROR Attempts_exhausted]"]) simp
  next
    case False
    with Suc.prems have lt: "attempts + 1 < max_attempts" and ge: "0 \<le> attempts + 1" by simp_all
    from Suc.hyps(2) have n: "n = nat (max_attempts - (attempts + 1))" by simp
    let ?st = "st\<lparr>out := out st @ evs @ [Sleep (2 ^ nat (attempts + 1))]\<rparr>"
    from Suc.hyps(1)[OF n ge lt, of ?st] obtain evs2 where
      r: "fetch_loop env api_url max_attempts (attempts + 1) ?st = (?st\<lparr>out := out ?st @ evs2\<rparr>, Inr (JArr []))"
      and q: "requests evs2 = nat (max_attempts - (attempts + 1))"
      and s: "sleeps evs2 = map (\<lambda>i. 2 ^ i) [nat (attempts + 1) + 1 ..< nat max_attempts]"
      and l: "evs2 \<noteq> []" "last evs2 = Log ERROR Attempts_exhausted"
      by blast
    have nat1: "nat (attempts + 1) = nat attempts + 1" using Suc.prems by simp
    have upt: "[nat attempts + 1 ..< nat max_attempts] = (nat attempts + 1) # [nat attempts + 1 + 1 ..< nat max_attempts]"
    proof -
      have "nat attempts + 1 < nat max_attempts" using lt Suc.prems by simp
      from upt_conv_Cons[OF this] show ?thesis by simp
    qed
    have lt': "nat attempts < nat max_attempts" using Suc.prems by simp
    show ?thesis
      using False step r q s l evs nat1 upt Suc.prems lt'
      by (intro exI[of _ "evs @ [Sleep (2 ^ nat (attempts + 1))] @ evs2"])
         (simp add: nat_diff_distrib Suc_diff_Suc)
  qed
qed

lemma fetch_loop_fatal:
  assumes "0 \<le> attempts" and "nat attempts \<le> k" and "int k < max_attempts"
    and "\<forall>j. nat attempts \<le> j \<and> j < k \<longrightarrow> timed_out (env j)"
    and "env k = Failed_request f \<or> env k = Failed_body f"
    and "f = Response_error status \<or> f = Client_error"
  shows "\<exists>evs. fetch_loop env api_url max_attempts attempts st = (st\<lparr>out := out st @ evs\<rparr>, Inr (JArr []))
           \<and> requests evs = k + 1 - nat attempts
           \<and> sleeps evs = map (\<lambda>i. 2 ^ i) [nat attempts + 1 ..< k + 1]
           \<and> evs \<noteq> []
           \<and> last evs = Log ERROR (if f = Response_error 404 then Not_found api_url else Request_failed)"
  using assms(1,2,4)
proof (induction "k - nat attempts" arbitrary: attempts st)
  case 0
  then have k: "nat attempts = k" by simp
  with assms(3) "0.prems" have lt: "attempts < max_attempts" by linarith
  from fetch_loop_fatal_step[where env = env and attempts = attempts and max_attempts = max_attempts
      and api_url = api_url and st = st and f = f and status = status, OF lt _ assms(6)] assms(5) k
  obtain evs where "requests evs = 1" "sleeps evs = []"
    "fetch_loop env api_url max_attempts attempts st =
       (st\<lparr>out := out st @ evs @
          [Log ERROR (if f = Response_error 404 then Not_found api_url else Request_failed)]\<rparr>,
        Inr (JArr []))"
    by auto
  with k show ?case
    by (intro exI[of _ "evs @ [Log ERROR (if f = Response_error 404 then Not_found api_url else Request_failed)]"])
       simp
next
  case (Suc n)
  then have lt_k: "nat attempts < k" by simp
  with assms(3) Suc.prems have lt: "attempts < max_attempts" and ne: "attempts + 1 \<noteq> max_attempts"
    by linarith+
  from Suc.prems lt_k have t: "timed_out (env (nat attempts))" by simp
  from fetch_loop_timeout_step[where env = env and attempts = attempts and max_attempts = max_attempts
      and api_url = api_url and st = st, OF lt t] ne obtain evs where
    evs: "requests evs = 1" "sleeps evs = []"
    and step: "fetch_loop env api_url max_attempts attempts st =
                 fetch_loop env api_url max_attempts (attempts + 1)
                     (st\<lparr>out := out st @ evs @ [Sleep (2 ^ nat (attempts + 1))]\<rparr>)"
    by auto
  have nat1: "nat (attempts + 1) = nat attempts + 1" using Suc.prems by simp
  let ?st = "st\<lparr>out := out st @ evs @ [Sleep (2 ^ nat (attempts + 1))]\<rparr>"
  have n: "n = k - nat (attempts + 1)" using Suc.hyps(2) nat1 by simp
  have ge: "0 \<le> attempts + 1" using Suc.prems by simp
  have le: "nat (attempts + 1) \<le> k" using lt_k nat1 by simp
  have tt: "\<forall>j. nat (attempts + 1) \<le> j \<and> j < k \<longrightarrow> timed_out (env j)"
    using Suc.prems(3) nat1 by simp
  from Suc.hyps(1)[OF n ge le tt, of ?st] obtain evs2 where
    r: "fetch_loop env api_url max_attempts (attempts + 1) ?st = (?st\<lparr>out := out ?st @ evs2\<rparr>, Inr (JArr []))"
    and q: "requests evs2 = k + 1 - nat (attempts + 1)"
    and s: "sleeps evs2 = map (\<lambda>i. 2 ^ i) [nat (attempts + 1) + 1 ..< k + 1]"
    and l: "evs2 \<noteq> []"
      "last evs2 = Log ERROR (if f = Response_error 404 then Not_found api_url else Request_failed)"
    by blast
  have upt: "[nat attempts + 1 ..< k + 1] = (nat attempts + 1) # [nat attempts + 1 + 1 ..< k + 1]"
  proof -
    have "nat attempts + 1 < k + 1" using lt_k by simp
    from upt_conv_Cons[OF this] show ?thesis by simp
  qed
  show ?case
    using step r q s l evs nat1 upt lt_k
    by (intro exI[of _ "evs @ [Sleep (2 ^ nat (attempts + 1))] @ evs2"]) (simp add: Suc_diff_Suc)
qed

text \<open>
  Claim C7. With at least one attempt allowed (\<^verbatim>\<open>self.retries\<close> is 3 by default) and a
  timeout on every request, \<^verbatim>\<open>fetch_data\<close> makes exactly \<^verbatim>\<open>max_attempts\<close> requests, sleeps
  \<open>2 ^ attempt\<close> seconds after the failed attempt number \<open>attempt\<close> for every attempt but
  the last (2, 4, ... seconds), returns the empty list and ends with the error line
  that the attempts are exhausted.
\<close>

theorem fetch_data_all_timeouts:
  assumes "0 < retries" and "\<forall>k. timed_out (env k)"
  shows "\<exists>evs. fetch_data retries env api_name api_url st = (st\<lparr>out := out st @ evs\<rparr>, Inr (JArr []))
           \<and> requests evs = nat retries
           \<and> sleeps evs = map (\<lambda>attempt. 2 ^ attempt) [1 ..< nat retries]
           \<and> last evs = Log ERROR Attempts_exhausted"
proof -
  let ?st = "emit Sleep_random st"
  from fetch_loop_all_timeouts[where env = env and attempts = 0 and max_attempts = retries
      and api_url = api_url and st = ?st, OF _ assms(1) assms(2)] obtain evs where
    "fetch_loop env api_url retries 0 ?st = (?st\<lparr>out := out ?st @ evs\<rparr>, Inr (JArr []))"
    "requests evs = nat retries" "sleeps evs = map (\<lambda>i. 2 ^ i) [1 ..< nat retries]"
    "evs \<noteq> []" "last evs = Log ERROR Attempts_exhausted"
    by auto
  then show ?thesis
    by (intro exI[of _ "Sleep_random # evs"]) (simp add: fetch_data_def emit_def)
qed

theorem fetch_data_all_timeouts_witness:
  "(0::int) < 3
   \<and> timed_out (Failed_request Timeout)
   \<and> (\<exists>evs. fetch_data 3 (\<lambda>k. Failed_request Timeout) ''ala_place'' ''https://orsha-ecokarta.gov.by/api/ala_place''
               \<lparr>files = [], out = []\<rparr>
             = (\<lparr>files = [], out = evs\<rparr>, Inr (JArr []))
           \<and> requests evs = 3
           \<and> sleeps evs = [2, 4]
           \<and> last evs = Log ERROR Attempts_exhausted)"
proof -
  have h1: "(0::int) < 3" by simp
  have h2: "\<forall>k. timed_out ((\<lambda>k. Failed_request Timeout) k)" by (simp add: timed_out_def)
  have u: "[1 ..< nat 3] = [1, 2]" by (simp add: upt_rec)
  from fetch_data_all_timeouts[OF h1 h2, of "''ala_place''" "''https://orsha-ecokarta.gov.by/api/ala_place''"
      "\<lparr>files = [], out = []\<rparr>"] u
  show ?thesis by (simp add: timed_out_def)
qed

text \<open>
  Claim C8. When the request number \<open>k\<close> (from 0, after \<open>k\<close> timeouts) fails with an HTTP
  status error or another client error and is still within the allowed attempts,
  \<^verbatim>\<open>fetch_data\<close> returns the empty list with that request as its last one: \<open>k + 1\<close>
  requests in all, no sleep after it, and the error line as the last event. For
  \<open>k = 0\<close> and status 404 this is exactly one attempt.
\<close>

theorem fetch_data_fatal_no_retry:
  assumes "int k < retries"
    and "\<forall>j<k. timed_out (env j)"
    and "env k = Failed_request f \<or> env k = Failed_body f"
    and "f = Response_error status \<or> f = Client_error"
  shows "\<exists>evs. fetch_data retries env api_name api_url st = (st\<lparr>out := out st @ evs\<rparr>, Inr (JArr []))
           \<and> requests evs = k + 1
           \<and> sleeps evs = map (\<lambda>attempt. 2 ^ attempt) [1 ..< k + 1]
           \<and> last evs = Log ERROR (if f = Response_error 404 then Not_found api_url else Request_failed)"
proof -
  let ?st = "emit Sleep_random st"
  have tt: "\<forall>j. nat 0 \<le> j \<and> j < k \<longrightarrow> timed_out (env j)" using assms(2) by simp
  from fetch_loop_fatal[where env = env and attempts = 0 and max_attempts = retries and k = k
      and api_url = api_url and st = ?st and f = f and status = status, OF _ _ assms(1) tt assms(3,4)]
  obtain evs where
    "fetch_loop env api_url retries 0 ?st = (?st\<lparr>out := out ?st @ evs\<rparr>, Inr (JArr []))"
    "requests evs = k + 1" "sleeps evs = map (\<lambda>i. 2 ^ i) [1 ..< k + 1]"
    "evs \<noteq> []" "last evs = Log ERROR (if f = Response_error 404 then Not_found api_url else Request_failed)"
    by auto
  then show ?thesis
    by (intro exI[of _ "Sleep_random # evs"]) (simp add: fetch_data_def emit_def)
qed

theorem fetch_data_fatal_no_retry_witness:
  "int 0 < 3
   \<and> (\<exists>evs. fetch_data 3 (\<lambda>k. Failed_request (Response_error 404)) ''ala_place''
               ''https://orsha-ecokarta.gov.by/api/ala_place'' \<lparr>files = [], out = []\<rparr>
             = (\<lparr>files = [], out = evs\<rparr>, Inr (JArr []))
           \<and> requests evs = 1
           \<and> sleeps evs = []
           \<and> last evs = Log ERROR (Not_found ''https://orsha-ecokarta.gov.by/api/ala_place''))"
proof -
  have h1: "int 0 < 3" by simp
  have h2: "\<forall>j<(0::nat). timed_out ((\<lambda>k. Failed_request (Response_error 404)) j)" by simp
  have h3: "(\<lambda>k. Failed_request (Response_error 404)) (0::nat) = Failed_request (Response_error 404)
            \<or> (\<lambda>k. Failed_request (Response_error 404)) (0::nat) = Failed_body (Response_error 404)"
    by simp
  have h4: "Response_error 404 = Response_error 404 \<or> Response_error 404 = Client_error" by simp
  from fetch_data_fatal_no_retry[OF h1 h2 h3 h4, of "''ala_place''" "''https://orsha-ecokarta.gov.by/api/ala_place''"
      "\<lparr>files = [], out = []\<rparr>"]
  show ?thesis by simp
qed

section \<open>Properties of the geo points\<close>

lemma scan_items_points:
  "fst (fst (scan_items water filename items geo_points st)) = geo_points \<union> points_of water items"
proof (induction items arbitrary: geo_points st)
  case Nil
  show ?case by (simp add: points_of_def List.map_filter_simps)
next
  case (Cons item items)
  show ?case
  proof (cases "lookup_geo_point water item")
    case (Inl e)
    then show ?thesis by (simp add: points_of_def raises_def List.map_filter_simps)
  next
    case (Inr v)
    show ?thesis
    proof (cases "truthy v \<and> v \<noteq> JStr ''Unknown''")
      case False
      with Inr Cons show ?thesis
        by (auto simp: points_of_def raises_def contribution_def List.map_filter_simps)
    next
      case True
      show ?thesis
      proof (cases "hash_key v")
        case (Inl e)
        with Inr True show ?thesis by (simp add: points_of_def raises_def List.map_filter_simps)
      next
        case k: (Inr k)
        with Inr True Cons show ?thesis
          by (auto simp: points_of_def raises_def contribution_def List.map_filter_simps)
      qed
    qed
  qed
qed

lemma scan_items_files: "files (snd (fst (scan_items water filename items geo_points st))) = files st"
  by (induction items arbitrary: geo_points st) (auto split: sum.splits)

lemma scan_file_points:
  "fst (scan_file water filepath filename acc)
     = fst acc \<union> points_of water (records_of (files (snd acc)) filepath)"
proof (cases "read_json (files (snd acc)) filepath")
  case None
  then show ?thesis by (simp add: scan_file_def records_of_def points_of_def List.map_filter_simps)
next
  case (Some data)
  show ?thesis
  proof (cases "py_iter data")
    case (Inl e)
    with Some show ?thesis by (simp add: scan_file_def records_of_def points_of_def List.map_filter_simps)
  next
    case (Inr items)
    with Some scan_items_points[of water filename items "fst acc" "snd acc"] show ?thesis
      by (simp add: scan_file_def records_of_def case_prod_unfold)
  qed
qed

lemma scan_file_files: "files (snd (scan_file water filepath filename acc)) = files (snd acc)"
proof (cases "case read_json (files (snd acc)) filepath of None \<Rightarrow> Inl OtherError | Some data \<Rightarrow> py_iter data")
  case (Inl e)
  then show ?thesis by (simp add: scan_file_def)
next
  case (Inr items)
  from scan_items_files[of water filename items "fst acc" "snd acc"] Inr
  show ?thesis by (simp add: scan_file_def case_prod_unfold)
qed

lemma records_of_absent: "\<not> path_exists fs filepath \<Longrightarrow> records_of fs filepath = []"
  by (simp add: records_of_def read_json_def path_exists_def)

lemma scan_water_result:
  "fst (scan_water category filenames acc)
       = fst acc \<union> (\<Union>filename\<in>set filenames.
                       points_of True (records_of (files (snd acc)) (path_join category filename)))
   \<and> files (snd (scan_water category filenames acc)) = files (snd acc)"
proof (induction filenames arbitrary: acc)
  case Nil
  show ?case by (simp add: scan_water_def)
next
  case (Cons f fs)
  let ?acc = "(let filepath = path_join category f
               in if path_exists (files (snd acc)) filepath
                  then scan_file True filepath f acc
                  else (fst acc, emit (Log WARNING (File_missing filepath)) (snd acc)))"
  have step: "scan_water category (f # fs) acc = scan_water category fs ?acc"
    by (simp add: scan_water_def)
  have fs': "files (snd ?acc) = files (snd acc)"
    by (simp add: Let_def scan_file_files)
  have pts: "fst ?acc = fst acc \<union> points_of True (records_of (files (snd acc)) (path_join category f))"
    by (simp add: Let_def scan_file_points records_of_absent points_of_def List.map_filter_simps)
  from Cons.IH[of ?acc] step fs' pts show ?case by auto
qed

lemma scan_listing_result:
  "fst (scan_listing category data_type filenames acc)
       = fst acc \<union> (\<Union>filename\<in>{f \<in> set filenames. ends_with f (''_'' @ data_type @ ''.json'')}.
                       points_of False (records_of (files (snd acc)) (path_join category filename)))
   \<and> files (snd (scan_listing category data_type filenames acc)) = files (snd acc)"
proof (induction filenames arbitrary: acc)
  case Nil
  show ?case by (simp add: scan_listing_def)
next
  case (Cons f fs)
  let ?acc = "(if ends_with f (''_'' @ data_type @ ''.json'')
               then scan_file False (path_join category f) f acc else acc)"
  have step: "scan_listing category data_type (f # fs) acc = scan_listing category data_type fs ?acc"
    by (simp add: scan_listing_def)
  have fs': "files (snd ?acc) = files (snd acc)"
    by (simp add: scan_file_files)
  have pts: "fst ?acc = fst acc \<union> (if ends_with f (''_'' @ data_type @ ''.json'')
       then points_of False (records_of (files (snd acc)) (path_join category f)) else {})"
    by (simp add: scan_file_points)
  from Cons.IH[of ?acc] step fs' pts show ?case by auto
qed

lemma contribution_not_excluded:
  "contribution water item = Some k \<Longrightarrow> k \<notin> {KStr ''Unknown'', KStr [], KNone, KNum 0}"
proof -
  assume a: "contribution water item = Some k"
  then obtain v where v: "truthy v" "v \<noteq> JStr ''Unknown''" "hash_key v = Inr k"
    by (auto simp: contribution_def split: sum.splits if_splits)
  then show ?thesis by (cases v) (auto split: if_splits)
qed

lemma points_of_excluded: "points_of water items \<inter> {KStr ''Unknown'', KStr [], KNone, KNum 0} = {}"
proof -
  have "k \<notin> {KStr ''Unknown'', KStr [], KNone, KNum 0}" if "k \<in> points_of water items" for k
  proof -
    from that obtain item where "contribution water item = Some k"
      by (auto simp: points_of_def List.map_filter_def)
    then show ?thesis by (rule contribution_not_excluded)
  qed
  then show ?thesis by blast
qed

lemma extract_geo_points_water:
  "extract_geo_points ''water'' data_type st
     = (emit (Log INFO (Geo_points_total
                 (card (\<Union>filename\<in>set target_files.
                          points_of True (records_of (files st) (path_join ''water'' filename))))
                 ''water''))
          (snd (scan_water ''water'' target_files ({}, st))),
        Inr (\<Union>filename\<in>set target_files.
               points_of True (records_of (files st) (path_join ''water'' filename))))"
  using scan_water_result[of "''water''" target_files "({}, st)"]
  by (simp add: extract_geo_points_def)

lemma extract_geo_points_listing:
  assumes "category \<noteq> ''water''" and "listdir (files st) category = Inr filenames"
  shows "snd (extract_geo_points category data_type st)
     = Inr (\<Union>filename\<in>{f \<in> set filenames. ends_with f (''_'' @ data_type @ ''.json'')}.
               points_of False (records_of (files st) (path_join category filename)))"
  using assms scan_listing_result[of category data_type filenames "({}, st)"]
  by (simp add: extract_geo_points_def)

lemma extract_geo_points_missing:
  assumes "category \<noteq> ''water''" and "\<not> dir_exists (files st) category"
  shows "extract_geo_points category data_type st = (st, Inl FileNotFoundError)"
  using assms by (simp add: extract_geo_points_def listdir_def)

lemma extract_geo_points_files: "files (fst (extract_geo_points category data_type st)) = files st"
proof (cases "category = ''water''")
  case True
  with scan_water_result[of "''water''" target_files "({}, st)"] show ?thesis
    by (simp add: extract_geo_points_def)
next
  case False
  show ?thesis
  proof (cases "listdir (files st) category")
    case (Inl e)
    with False show ?thesis by (simp add: extract_geo_points_def)
  next
    case (Inr filenames)
    with False scan_listing_result[of category data_type filenames "({}, st)"] show ?thesis
      by (simp add: extract_geo_points_def)
  qed
qed

lemma UN_points_of_excluded:
  "(\<Union>x\<in>A. points_of water (f x)) \<inter> {KStr ''Unknown'', KStr [], KNone, KNum 0} = {}"
proof -
  have "points_of water (f x) \<inter> {KStr ''Unknown'', KStr [], KNone, KNum 0} = {}" for x
    by (rule points_of_excluded)
  then show ?thesis by blast
qed

lemma extract_geo_points_excluded:
  assumes "snd (extract_geo_points category data_type st) = Inr G"
  shows "G \<inter> {KStr ''Unknown'', KStr [], KNone, KNum 0} = {}"
proof (cases "category = ''water''")
  case True
  with assms have "G = (\<Union>filename\<in>set target_files.
      points_of True (records_of (files st) (path_join ''water'' filename)))"
    by (simp add: extract_geo_points_water)
  then show ?thesis by (simp only: UN_points_of_excluded)
next
  case False
  show ?thesis
  proof (cases "listdir (files st) category")
    case (Inl e)
    with False assms show ?thesis by (simp add: extract_geo_points_def)
  next
    case (Inr filenames)
    from extract_geo_points_listing[OF False Inr, of data_type] assms
    have "G = (\<Union>filename\<in>{f \<in> set filenames. ends_with f (''_'' @ data_type @ ''.json'')}.
               points_of False (records_of (files st) (path_join category filename)))"
      by simp
    then show ?thesis by (simp only: UN_points_of_excluded)
  qed
qed

lemma records_of_cong:
  "map_of fs' p = map_of fs p \<Longrightarrow> records_of fs' p = records_of fs p"
  by (simp add: records_of_def read_json_def)

lemma extract_geo_points_water_indep:
  assumes "\<forall>filename\<in>set target_files.
             map_of (files st') (path_join ''water'' filename) = map_of (files st) (path_join ''water'' filename)"
  shows "snd (extract_geo_points ''water'' data_type' st') = snd (extract_geo_points ''water'' data_type st)"
proof -
  have "records_of (files st') (path_join ''water'' f) = records_of (files st) (path_join ''water'' f)"
    if "f \<in> set target_files" for f
    using assms that by (intro records_of_cong) simp
  then show ?thesis
    by (simp add: extract_geo_points_water)
qed

lemma points_of_sound:
  assumes "k \<in> points_of water items"
  shows "\<exists>item\<in>set items. contribution water item = Some k"
proof -
  from assms obtain item where "item \<in> set (takeWhile (\<lambda>item. \<not> raises water item) items)"
    "contribution water item = Some k"
    by (auto simp: points_of_def List.map_filter_def)
  then show ?thesis by (auto dest: set_takeWhileD)
qed

lemma contribution_string:
  assumes "lookup_geo_point water item = Inr (JStr s)" and "s \<noteq> []" and "s \<noteq> ''Unknown''"
  shows "contribution water item = Some (KStr s)"
  using assms by (simp add: contribution_def)

lemma water_scenario:
  "snd (extract_geo_points ''water'' ''substances''
      \<lparr>files = [(''water/nsmos_substances_substances.json'',
                  Document (JArr [JObj [(''field_geo_point'', JStr ''A'')],
                                  JObj [(''field_geo_point'', JStr ''Unknown'')]])),
                 (''water/esawage_surface_substances_substances.json'',
                  Document (JArr [JObj [(''field_geo_point'', JStr ''B'')],
                                  JObj [(''field_geo_point'', JStr ''A'')]]))],
        out = []\<rparr>)
   = Inr {KStr ''A'', KStr ''B''}"
  by (simp add: extract_geo_points_def scan_water_def target_files_def path_join_def path_exists_def
      scan_file_def read_json_def lookup_geo_point_def emit_def Let_def insert_commute)

lemma soils_scenario:
  "snd (extract_geo_points ''soils'' ''substances''
      \<lparr>files = [(''soils/a_substances.json'',
                  Document (JArr [JObj [(''field_geo_point'', JStr ''A'')],
                                  JObj [(''field_geo_point'', JStr ''Unknown'')]])),
                 (''soils/b_substances.json'',
                  Document (JArr [JObj [(''field_geo_point'', JStr ''B'')],
                                  JObj [(''field_geo_point'', JStr ''A'')]]))],
        out = []\<rparr>)
   = Inr {KStr ''A'', KStr ''B''}"
  by (simp add: extract_geo_points_def scan_listing_def listdir_def dir_exists_def ends_with_def
      path_join_def scan_file_def read_json_def lookup_geo_point_def emit_def Let_def insert_commute)

lemma contribution_not_raises: "contribution water item = Some k \<Longrightarrow> \<not> raises water item"
  by (auto simp: contribution_def raises_def split: sum.splits if_splits)

lemma points_of_prefix:
  assumes "\<forall>r\<in>set pre. \<not> raises water r" and "contribution water item = Some k"
  shows "k \<in> points_of water (pre @ item # post)"
proof -
  from assms(1) have tw: "takeWhile (\<lambda>item. \<not> raises water item) (pre @ item # post)
      = pre @ item # takeWhile (\<lambda>item. \<not> raises water item) post"
    using contribution_not_raises[OF assms(2)] by (simp add: takeWhile_append2)
  show ?thesis
    unfolding points_of_def tw List.map_filter_def
    using assms(2) by (auto intro!: image_eqI[where x = item])
qed

text \<open>
  Claim C9. \<^verbatim>\<open>extract_geo_points\<close> returns the set of the geo points of the scanned
  files and nothing else. For the category \<^verbatim>\<open>water\<close> the result is the union of the
  points of the two named files, whatever the data type and whatever else the
  directory holds: two states that agree on these two paths give the same set. For
  another category the result is the union of the points of the files of the listing
  whose name ends in \<^verbatim>\<open>_<data_type>.json\<close>; when the directory of the category does not
  exist, \<^verbatim>\<open>os.listdir\<close> raises and the method returns nothing and logs nothing. No file
  is changed. A returned set never holds \<^verbatim>\<open>"Unknown"\<close>, the empty string, \<^verbatim>\<open>None\<close> or
  zero. Every string value, other than the empty one and \<^verbatim>\<open>"Unknown"\<close>, of a record that
  stands before the first record on which the loop raises is a point of the file, and
  every point of a file is the value of one of its records. Two files holding the
  values \<^verbatim>\<open>"A"\<close>, \<^verbatim>\<open>"Unknown"\<close> and \<^verbatim>\<open>"B"\<close>, \<^verbatim>\<open>"A"\<close> give exactly the set of \<^verbatim>\<open>"A"\<close> and
  \<^verbatim>\<open>"B"\<close>, for \<^verbatim>\<open>water\<close> and for another category.
\<close>

theorem extract_geo_points_spec:
  "snd (extract_geo_points ''water'' data_type st)
     = Inr (\<Union>filename\<in>set target_files.
              points_of True (records_of (files st) (path_join ''water'' filename)))
   \<and> (category \<noteq> ''water'' \<longrightarrow> listdir (files st) category = Inr filenames \<longrightarrow>
        snd (extract_geo_points category data_type st)
          = Inr (\<Union>filename\<in>{f \<in> set filenames. ends_with f (''_'' @ data_type @ ''.json'')}.
                   points_of False (records_of (files st) (path_join category filename))))
   \<and> (category \<noteq> ''water'' \<longrightarrow> \<not> dir_exists (files st) category \<longrightarrow>
        extract_geo_points category data_type st = (st, Inl FileNotFoundError))
   \<and> files (fst (extract_geo_points category data_type st)) = files st
   \<and> (snd (extract_geo_points category data_type st) = Inr G \<longrightarrow>
        G \<inter> {KStr ''Unknown'', KStr [], KNone, KNum 0} = {})
   \<and> ((\<forall>r\<in>set pre. \<not> raises water r) \<longrightarrow>
        lookup_geo_point water item = Inr (JStr s) \<longrightarrow> s \<noteq> [] \<longrightarrow> s \<noteq> ''Unknown'' \<longrightarrow>
        KStr s \<in> points_of water (pre @ item # post))
   \<and> (k \<in> points_of water items \<longrightarrow> (\<exists>item\<in>set items. contribution water item = Some k))
   \<and> ((\<forall>filename\<in>set target_files.
          map_of (files st') (path_join ''water'' filename)
            = map_of (files st) (path_join ''water'' filename)) \<longrightarrow>
        snd (extract_geo_points ''water'' data_type' st')
          = snd (extract_geo_points ''water'' data_type st))
   \<and> snd (extract_geo_points ''water'' ''substances''
        \<lparr>files = [(''water/nsmos_substances_substances.json'',
                    Document (JArr [JObj [(''field_geo_point'', JStr ''A'')],
                                    JObj [(''field_geo_point'', JStr ''Unknown'')]])),
                   (''water/esawage_surface_substances_substances.json'',
                    Document (JArr [JObj [(''field_geo_point'', JStr ''B'')],
                                    JObj [(''field_geo_point'', JStr ''A'')]]))],
          out = []\<rparr>)
       = Inr {KStr ''A'', KStr ''B''}
   \<and> snd (extract_geo_points ''soils'' ''substances''
        \<lparr>files = [(''soils/a_substances.json'',
                    Document (JArr [JObj [(''field_geo_point'', JStr ''A'')],
                                    JObj [(''field_geo_point'', JStr ''Unknown'')]])),
                   (''soils/b_substances.json'',
                    Document (JArr [JObj [(''field_geo_point'', JStr ''B'')],
                                    JObj [(''field_geo_point'', JStr ''A'')]]))],
          out = []\<rparr>)
       = Inr {KStr ''A'', KStr ''B''}"
proof (intro conjI impI)
  show "snd (extract_geo_points ''water'' data_type st)
     = Inr (\<Union>filename\<in>set target_files.
              points_of True (records_of (files st) (path_join ''water'' filename)))"
    by (simp add: extract_geo_points_water)
next
  assume "category \<noteq> ''water''" and "listdir (files st) category = Inr filenames"
  then show "snd (extract_geo_points category data_type st)
          = Inr (\<Union>filename\<in>{f \<in> set filenames. ends_with f (''_'' @ data_type @ ''.json'')}.
                   points_of False (records_of (files st) (path_join category filename)))"
    by (rule extract_geo_points_listing)
next
  assume "category \<noteq> ''water''" and "\<not> dir_exists (files st) category"
  then show "extract_geo_points category data_type st = (st, Inl FileNotFoundError)"
    by (rule extract_geo_points_missing)
next
  show "files (fst (extract_geo_points category data_type st)) = files st"
    by (rule extract_geo_points_files)
next
  assume "snd (extract_geo_points category data_type st) = Inr G"
  then show "G \<inter> {KStr ''Unknown'', KStr [], KNone, KNum 0} = {}"
    by (rule extract_geo_points_excluded)
next
  assume "\<forall>r\<in>set pre. \<not> raises water r" and "lookup_geo_point water item = Inr (JStr s)"
    and "s \<noteq> []" and "s \<noteq> ''Unknown''"
  then show "KStr s \<in> points_of water (pre @ item # post)"
    by (intro points_of_prefix contribution_string)
next
  assume "k \<in> points_of water items"
  then show "\<exists>item\<in>set items. contribution water item = Some k"
    by (rule points_of_sound)
next
  assume "\<forall>filename\<in>set target_files.
          map_of (files st') (path_join ''water'' filename)
            = map_of (files st) (path_join ''water'' filename)"
  then show "snd (extract_geo_points ''water'' data_type' st')
          = snd (extract_geo_points ''water'' data_type st)"
    by (rule extract_geo_points_water_indep)
next
  show "snd (extract_geo_points ''water'' ''substances''
        \<lparr>files = [(''water/nsmos_substances_substances.json'',
                    Document (JArr [JObj [(''field_geo_point'', JStr ''A'')],
                                    JObj [(''field_geo_point'', JStr ''Unknown'')]])),
                   (''water/esawage_surface_substances_substances.json'',
                    Document (JArr [JObj [(''field_geo_point'', JStr ''B'')],
                                    JObj [(''field_geo_point'', JStr ''A'')]]))],
          out = []\<rparr>)
       = Inr {KStr ''A'', KStr ''B''}"
    by (rule water_scenario)
next
  show "snd (extract_geo_points ''soils'' ''substances''
        \<lparr>files = [(''soils/a_substances.json'',
                    Document (JArr [JObj [(''field_geo_point'', JStr ''A'')],
                                    JObj [(''field_geo_point'', JStr ''Unknown'')]])),
                   (''soils/b_substances.json'',
                    Document (JArr [JObj [(''field_geo_point'', JStr ''B'')],
                                    JObj [(''field_geo_point'', JStr ''A'')]]))],
          out = []\<rparr>)
       = Inr {KStr ''A'', KStr ''B''}"
    by (rule soils_scenario)
qed

theorem extract_geo_points_spec_witness:
  "snd (extract_geo_points ''soils'' ''substances''
      \<lparr>files = [(''soils/a_substances.json'',
                  Document (JArr [JObj [(''field_geo_point'', JStr ''A'')],
                                  JObj [(''Nid'', JNum 7)],
                                  JObj [(''field_geo_point'', JStr ''Unknown'')]])),
                 (''soils/b_place.json'',
                  Document (JArr [JObj [(''field_geo_point'', JStr ''C'')]])),
                 (''soils/c_substances.json'',
                  Document (JArr [JObj [(''field_geo_point'', JStr ''B'')],
                                  JObj [(''field_geo_point'', JStr ''A'')]]))],
        out = []\<rparr>)
     = Inr {KStr ''A'', KNum 7, KStr ''B''}
   \<and> extract_geo_points ''soils'' ''substances'' \<lparr>files = [], out = []\<rparr>
     = (\<lparr>files = [], out = []\<rparr>, Inl FileNotFoundError)
   \<and> snd (extract_geo_points ''water'' ''substances''
      \<lparr>files = [(''water/nsmos_substances_substances.json'',
                  Document (JArr [JObj [(''field_geo_point'', JStr ''A'')]])),
                 (''water/other_substances.json'',
                  Document (JArr [JObj [(''field_geo_point'', JStr ''C'')]]))],
        out = []\<rparr>)
     = snd (extract_geo_points ''water'' ''place''
      \<lparr>files = [(''water/nsmos_substances_substances.json'',
                  Document (JArr [JObj [(''field_geo_point'', JStr ''A'')]]))],
        out = []\<rparr>)
   \<and> KStr ''B'' \<in> points_of False
        [JObj [(''field_geo_point'', JStr ''Unknown'')], JObj [(''field_geo_point'', JStr ''B'')], JNull]"
proof -
  let ?S = "\<lparr>files = [(''soils/a_substances.json'',
                  Document (JArr [JObj [(''field_geo_point'', JStr ''A'')],
                                  JObj [(''Nid'', JNum 7)],
                                  JObj [(''field_geo_point'', JStr ''Unknown'')]])),
                 (''soils/b_place.json'',
                  Document (JArr [JObj [(''field_geo_point'', JStr ''C'')]])),
                 (''soils/c_substances.json'',
                  Document (JArr [JObj [(''field_geo_point'', JStr ''B'')],
                                  JObj [(''field_geo_point'', JStr ''A'')]]))],
        out = []\<rparr>"
  have ls: "listdir (files ?S) ''soils''
      = Inr [''a_substances.json'', ''b_place.json'', ''c_substances.json'']"
    by (simp add: listdir_def dir_exists_def)
  have sel: "{f \<in> set [''a_substances.json'', ''b_place.json'', ''c_substances.json''].
                ends_with f (''_'' @ ''substances'' @ ''.json'')}
      = {''a_substances.json'', ''c_substances.json''}"
    unfolding set_filter[symmetric] by (simp add: ends_with_def)
  have ne: "''soils'' \<noteq> ''water''"
    by simp
  note eq = extract_geo_points_spec[where category = "''soils''" and st = ?S
        and data_type = "''substances''"
        and filenames = "[''a_substances.json'', ''b_place.json'', ''c_substances.json'']",
        THEN conjunct2, THEN conjunct1, rule_format, OF ne ls]
  have a: "snd (extract_geo_points ''soils'' ''substances'' ?S) = Inr {KStr ''A'', KNum 7, KStr ''B''}"
    unfolding eq sel
    by (simp add: path_join_def records_of_def read_json_def points_of_def
        raises_def contribution_def lookup_geo_point_def List.map_filter_simps insert_commute)
  have nd: "\<not> dir_exists (files \<lparr>files = [], out = []\<rparr>) ''soils''"
    by (simp add: dir_exists_def)
  note b = extract_geo_points_spec[where category = "''soils''"
        and st = "\<lparr>files = [], out = []\<rparr>" and data_type = "''substances''",
        THEN conjunct2, THEN conjunct2, THEN conjunct1, rule_format, OF ne nd]
  let ?W = "\<lparr>files = [(''water/nsmos_substances_substances.json'',
                  Document (JArr [JObj [(''field_geo_point'', JStr ''A'')]]))],
        out = []\<rparr>"
  let ?W' = "\<lparr>files = [(''water/nsmos_substances_substances.json'',
                  Document (JArr [JObj [(''field_geo_point'', JStr ''A'')]])),
                 (''water/other_substances.json'',
                  Document (JArr [JObj [(''field_geo_point'', JStr ''C'')]]))],
        out = []\<rparr>"
  have same: "\<forall>filename\<in>set target_files.
      map_of (files ?W') (path_join ''water'' filename) = map_of (files ?W) (path_join ''water'' filename)"
    by (simp add: target_files_def path_join_def)
  note c = extract_geo_points_spec[where st' = ?W' and st = ?W
        and data_type = "''place''" and data_type' = "''substances''",
        THEN conjunct2, THEN conjunct2, THEN conjunct2, THEN conjunct2, THEN conjunct2,
        THEN conjunct2, THEN conjunct2, THEN conjunct1, THEN mp, OF same]
  have pre: "\<forall>r\<in>set [JObj [(''field_geo_point'', JStr ''Unknown'')]]. \<not> raises False r"
    by (simp add: raises_def lookup_geo_point_def)
  have look: "lookup_geo_point False (JObj [(''field_geo_point'', JStr ''B'')]) = Inr (JStr ''B'')"
    by (simp add: lookup_geo_point_def)
  have d: "KStr ''B'' \<in> points_of False
        [JObj [(''field_geo_point'', JStr ''Unknown'')], JObj [(''field_geo_point'', JStr ''B'')], JNull]"
    using extract_geo_points_spec[where water = False
        and pre = "[JObj [(''field_geo_point'', JStr ''Unknown'')]]"
        and item = "JObj [(''field_geo_point'', JStr ''B'')]" and s = "''B''" and post = "[JNull]",
        THEN conjunct2, THEN conjunct2, THEN conjunct2, THEN conjunct2, THEN conjunct2,
        THEN conjunct1, THEN mp, OF pre, THEN mp, OF look]
    by simp
  from a b c d show ?thesis by (intro conjI)
qed

section \<open>Properties of the data of one geo point\<close>















end
